theory Spec2Isabelle
  imports Complex_Main "HOL-Library.AList" "HOL-Library.Sublist"
begin

section \<open>Values shared by the telemetry engine and the judge\<close>

text \<open>
  The pipeline is Python. Its unbounded integers are \<^typ>\<open>int\<close>, its floats are modelled
  as \<^typ>\<open>real\<close> (exact arithmetic; no claim below depends on a rounding error of the
  binary representation), its strings are \<^typ>\<open>string\<close> with one \<^typ>\<open>char\<close> for each
  character (so \<open>s[:n]\<close> is \<^term>\<open>take n s\<close>), and a \<open>dict\<close>, which keeps
  insertion order, is an association list updated with \<^const>\<open>AList.update\<close> (an
  existing key keeps its place, a new key goes to the end, as in Python).
  Every reading of \<open>time.monotonic()\<close> and of the wall clock is an explicit argument of
  the operation that takes it. The lock of \<open>PipelineTelemetry\<close> is not modelled: the
  operations are the sequential behaviour of the methods.
\<close>

datatype jval =
    JNull
  | JBool bool
  | JInt int
  | JFloat real
  | JStr string
  | JList "jval list"
  | JDict "(string \<times> jval) list"

type_synonym pydict = "(string \<times> jval) list"

text \<open>\<open>round(x, n)\<close> of a float: the nearest multiple of \<open>10 ** -n\<close>, ties to even.\<close>

definition round_half_even :: "real \<Rightarrow> int" where
  "round_half_even x =
     (let f = \<lfloor>x\<rfloor>; d = x - of_int f
      in if d < 1 / 2 then f
         else if 1 / 2 < d then f + 1
         else if even f then f else f + 1)"

definition py_round :: "real \<Rightarrow> nat \<Rightarrow> real" where
  "py_round x n = of_int (round_half_even (x * 10 ^ n)) / 10 ^ n"

text \<open>Truthiness of an optional string (\<open>if error:\<close>): neither \<open>None\<close> nor empty.\<close>

fun truthy_str :: "string option \<Rightarrow> bool" where
  "truthy_str None = False"
| "truthy_str (Some s) = (s \<noteq> [])"

fun jstr_opt :: "string option \<Rightarrow> jval" where
  "jstr_opt None = JNull"
| "jstr_opt (Some s) = JStr s"

section \<open>Telemetry: events and counters (\<open>src/utils/telemetry.py\<close>)\<close>

record TelemetryEvent =
  stage :: string
  event :: string
  timestamp :: real
  wall_clock :: string
  data :: pydict

record LLMCallCounter =
  total_calls :: int
  total_prompt_chars :: int
  total_completion_chars :: int
  total_prompt_tokens_est :: int
  total_retries :: int
  total_errors :: int
  total_quota_errors :: int
  total_fallbacks :: int
  calls_by_model :: "(string \<times> int) list"
  latency_samples_ms :: "real list"

record PyWhyLLMCounter =
  total_pairs :: int
  pairs_a :: int
  pairs_b :: int
  pairs_c :: int
  pairs_normalized :: int
  pairs_parse_fail :: int
  pairs_exception :: int
  raw_outputs :: "pydict list"
  per_call_latency_ms :: "real list"

record VerificationCounter =
  total_edges_submitted :: int
  total_judge_calls :: int
  total_adversarial_calls :: int
  grounded_count :: int
  rejected_count :: int
  no_evidence_count :: int
  exhausted_iterations_count :: int
  duplicate_query_breaks :: int
  adversarial_rejections :: int
  rejection_reasons :: "pydict list"
  verdict_confidences :: "real list"

record EdgeDropoutTracker =
  pywhyllm_proposed :: int
  langextract_proposed :: int
  total_after_dedup :: int
  after_mechanism_synthesis :: int
  submitted_to_verification :: int
  grounded_by_verification :: int
  rejected_by_verification :: int
  node_not_found_errors :: int
  cycle_detected_errors :: int
  other_add_errors :: int
  final_edges_in_graph :: int

text \<open>The dataclass defaults: what \<open>LLMCallCounter()\<close> and its siblings construct.\<close>

definition new_LLMCallCounter :: LLMCallCounter where
  "new_LLMCallCounter =
     \<lparr>total_calls = 0, total_prompt_chars = 0, total_completion_chars = 0,
      total_prompt_tokens_est = 0, total_retries = 0, total_errors = 0,
      total_quota_errors = 0, total_fallbacks = 0, calls_by_model = [],
      latency_samples_ms = []\<rparr>"

definition new_PyWhyLLMCounter :: PyWhyLLMCounter where
  "new_PyWhyLLMCounter =
     \<lparr>total_pairs = 0, pairs_a = 0, pairs_b = 0, pairs_c = 0, pairs_normalized = 0,
      pairs_parse_fail = 0, pairs_exception = 0, raw_outputs = [],
      per_call_latency_ms = []\<rparr>"

definition new_VerificationCounter :: VerificationCounter where
  "new_VerificationCounter =
     \<lparr>total_edges_submitted = 0, total_judge_calls = 0, total_adversarial_calls = 0,
      grounded_count = 0, rejected_count = 0, no_evidence_count = 0,
      exhausted_iterations_count = 0, duplicate_query_breaks = 0,
      adversarial_rejections = 0, rejection_reasons = [], verdict_confidences = []\<rparr>"

definition new_EdgeDropoutTracker :: EdgeDropoutTracker where
  "new_EdgeDropoutTracker =
     \<lparr>pywhyllm_proposed = 0, langextract_proposed = 0, total_after_dedup = 0,
      after_mechanism_synthesis = 0, submitted_to_verification = 0,
      grounded_by_verification = 0, rejected_by_verification = 0,
      node_not_found_errors = 0, cycle_detected_errors = 0, other_add_errors = 0,
      final_edges_in_graph = 0\<rparr>"

record PipelineTelemetry =
  run_start :: real
  run_start_wall :: string
  events :: "TelemetryEvent list"
  stage_starts :: "(string \<times> real) list"
  stage_durations :: "(string \<times> real) list"
  llm :: LLMCallCounter
  pywhyllm :: PyWhyLLMCounter
  verification :: VerificationCounter
  edge_dropout :: EdgeDropoutTracker
  variable_count_raw :: int
  variable_count_canonical :: int
  variable_count_added :: int
  evidence_cache_size :: int
  var_id_resolve_misses :: "pydict list"

subsection \<open>Construction and reset\<close>

text \<open>
  \<open>reset\<close> assigns every attribute of the instance; \<open>now\<close> and \<open>wall\<close> are the two
  clock readings it takes.
\<close>

definition reset :: "real \<Rightarrow> string \<Rightarrow> PipelineTelemetry \<Rightarrow> PipelineTelemetry" where
  "reset now wall tel =
     tel\<lparr>run_start := now,
         run_start_wall := wall,
         events := [],
         stage_starts := [],
         stage_durations := [],
         llm := new_LLMCallCounter,
         pywhyllm := new_PyWhyLLMCounter,
         verification := new_VerificationCounter,
         edge_dropout := new_EdgeDropoutTracker,
         variable_count_raw := 0,
         variable_count_canonical := 0,
         variable_count_added := 0,
         evidence_cache_size := 0,
         var_id_resolve_misses := []\<rparr>"

text \<open>
  Before \<open>__init__\<close> calls \<open>reset\<close> the object has no telemetry attribute at all; the
  record \<open>bare_instance\<close> stands for it and every field of it is overwritten.
\<close>

definition bare_instance :: PipelineTelemetry where
  "bare_instance =
     \<lparr>run_start = 0, run_start_wall = [], events = [], stage_starts = [],
      stage_durations = [], llm = new_LLMCallCounter, pywhyllm = new_PyWhyLLMCounter,
      verification = new_VerificationCounter, edge_dropout = new_EdgeDropoutTracker,
      variable_count_raw = 0, variable_count_canonical = 0, variable_count_added = 0,
      evidence_cache_size = 0, var_id_resolve_misses = []\<rparr>"

definition init :: "real \<Rightarrow> string \<Rightarrow> PipelineTelemetry" where
  "init now wall = reset now wall bare_instance"

subsection \<open>The generic recorder and stage timing\<close>

definition record_event ::
  "string \<Rightarrow> string \<Rightarrow> pydict \<Rightarrow> real \<Rightarrow> string \<Rightarrow> PipelineTelemetry \<Rightarrow> PipelineTelemetry" where
  "record_event stg evt dat now wall tel =
     (let ev = \<lparr>stage = stg, event = evt, timestamp = now, wall_clock = wall, data = dat\<rparr>
      in tel\<lparr>events := events tel @ [ev]\<rparr>)"

text \<open>\<open>t0\<close> is the reading stored for the stage; \<open>now\<close>, \<open>wall\<close> are those of the event.\<close>

definition stage_start ::
  "string \<Rightarrow> real \<Rightarrow> real \<Rightarrow> string \<Rightarrow> PipelineTelemetry \<Rightarrow> PipelineTelemetry" where
  "stage_start stg t0 now wall tel =
     record_event stg ''stage_start'' [] now wall
       (tel\<lparr>stage_starts := AList.update stg t0 (stage_starts tel)\<rparr>)"

text \<open>
  \<open>elapsed = (time.monotonic() - t0) if t0 else 0.0\<close>: a missing start and a start
  stored as \<open>0.0\<close> both give zero. \<open>t1\<close> is the reading the elapsed time is taken from.
  \<open>payload.update(extra)\<close> runs only for a non-empty \<open>extra\<close>.
\<close>

definition stage_elapsed :: "string \<Rightarrow> real \<Rightarrow> PipelineTelemetry \<Rightarrow> real" where
  "stage_elapsed stg t1 tel =
     (case map_of (stage_starts tel) stg of
        None \<Rightarrow> 0
      | Some t0 \<Rightarrow> if t0 \<noteq> 0 then t1 - t0 else 0)"

fun dict_update :: "pydict \<Rightarrow> pydict \<Rightarrow> pydict" where
  "dict_update d [] = d"
| "dict_update d ((k, v) # kvs) = dict_update (AList.update k v d) kvs"

definition stage_end ::
  "string \<Rightarrow> pydict option \<Rightarrow> real \<Rightarrow> real \<Rightarrow> string \<Rightarrow> PipelineTelemetry \<Rightarrow> PipelineTelemetry" where
  "stage_end stg extra t1 now wall tel =
     (let elapsed = stage_elapsed stg t1 tel;
          tel1 = tel\<lparr>stage_durations := AList.update stg elapsed (stage_durations tel)\<rparr>;
          payload0 = [(''elapsed_seconds'', JFloat (py_round elapsed 3))];
          payload = (case extra of
                       None \<Rightarrow> payload0
                     | Some ex \<Rightarrow> if ex \<noteq> [] then dict_update payload0 ex else payload0)
      in record_event stg ''stage_end'' payload now wall tel1)"

subsection \<open>Typed recorders\<close>

definition record_llm_call ::
  "string \<Rightarrow> int \<Rightarrow> int \<Rightarrow> real \<Rightarrow> int \<Rightarrow> int \<Rightarrow> PipelineTelemetry \<Rightarrow> PipelineTelemetry" where
  "record_llm_call model prompt_chars completion_chars latency_ms prompt_tokens
       completion_tokens tel =
     (let c = llm tel;
          c1 = c\<lparr>total_calls := total_calls c + 1,
                 total_prompt_chars := total_prompt_chars c + prompt_chars,
                 total_completion_chars := total_completion_chars c + completion_chars,
                 total_prompt_tokens_est := total_prompt_tokens_est c + prompt_chars div 4,
                 latency_samples_ms := latency_samples_ms c @ [latency_ms],
                 calls_by_model :=
                   AList.update model
                     ((case map_of (calls_by_model c) model of None \<Rightarrow> 0 | Some n \<Rightarrow> n) + 1)
                     (calls_by_model c)\<rparr>;
          c2 = (if prompt_tokens \<noteq> 0
                then c1\<lparr>total_prompt_tokens_est :=
                          max (total_prompt_tokens_est c1) prompt_tokens\<rparr>
                else c1)
      in tel\<lparr>llm := c2\<rparr>)"

definition record_llm_retry ::
  "string \<Rightarrow> int \<Rightarrow> string \<Rightarrow> real \<Rightarrow> string \<Rightarrow> PipelineTelemetry \<Rightarrow> PipelineTelemetry" where
  "record_llm_retry model attempt err now wall tel =
     record_event ''llm'' ''retry''
       [(''model'', JStr model), (''attempt'', JInt attempt), (''error'', JStr (take 300 err))]
       now wall
       (tel\<lparr>llm := (llm tel)\<lparr>total_retries := total_retries (llm tel) + 1\<rparr>\<rparr>)"

definition record_llm_error ::
  "string \<Rightarrow> string \<Rightarrow> bool \<Rightarrow> real \<Rightarrow> string \<Rightarrow> PipelineTelemetry \<Rightarrow> PipelineTelemetry" where
  "record_llm_error model err is_quota now wall tel =
     (let c = llm tel;
          c1 = c\<lparr>total_errors := total_errors c + 1\<rparr>;
          c2 = (if is_quota then c1\<lparr>total_quota_errors := total_quota_errors c1 + 1\<rparr> else c1)
      in record_event ''llm'' ''error''
           [(''model'', JStr model), (''error'', JStr (take 500 err)), (''is_quota'', JBool is_quota)]
           now wall (tel\<lparr>llm := c2\<rparr>))"

definition record_llm_fallback ::
  "string \<Rightarrow> real \<Rightarrow> string \<Rightarrow> PipelineTelemetry \<Rightarrow> PipelineTelemetry" where
  "record_llm_fallback model now wall tel =
     record_event ''llm'' ''native_to_prompt_fallback'' [(''model'', JStr model)] now wall
       (tel\<lparr>llm := (llm tel)\<lparr>total_fallbacks := total_fallbacks (llm tel) + 1\<rparr>\<rparr>)"

text \<open>
  The \<open>if\<close>/\<open>elif\<close> chain of \<open>record_pywhyllm_pair\<close> on the error and the parsed answer,
  in the order of the source.
\<close>

definition count_answer :: "string option \<Rightarrow> string \<Rightarrow> PyWhyLLMCounter \<Rightarrow> PyWhyLLMCounter" where
  "count_answer err answer c =
     (if truthy_str err then c\<lparr>pairs_exception := pairs_exception c + 1\<rparr>
      else if answer = ''A'' then c\<lparr>pairs_a := pairs_a c + 1\<rparr>
      else if answer = ''B'' then c\<lparr>pairs_b := pairs_b c + 1\<rparr>
      else if answer = ''C'' then c\<lparr>pairs_c := pairs_c c + 1\<rparr>
      else c\<lparr>pairs_parse_fail := pairs_parse_fail c + 1\<rparr>)"

definition record_pywhyllm_pair ::
  "string \<Rightarrow> string \<Rightarrow> string \<Rightarrow> string \<Rightarrow> real \<Rightarrow> string option \<Rightarrow> bool
     \<Rightarrow> PipelineTelemetry \<Rightarrow> PipelineTelemetry" where
  "record_pywhyllm_pair var1 var2 answer raw_description latency_ms err was_normalized tel =
     (let c = pywhyllm tel;
          c1 = c\<lparr>total_pairs := total_pairs c + 1,
                 per_call_latency_ms := per_call_latency_ms c @ [latency_ms]\<rparr>;
          c2 = count_answer err answer c1;
          c3 = (if was_normalized then c2\<lparr>pairs_normalized := pairs_normalized c2 + 1\<rparr> else c2);
          c4 = (if length (raw_outputs c3) < 200
                then c3\<lparr>raw_outputs := raw_outputs c3 @
                          [[(''var1'', JStr var1),
                            (''var2'', JStr var2),
                            (''answer_parsed'', JStr answer),
                            (''raw_description'',
                               JStr (if raw_description \<noteq> [] then take 500 raw_description else [])),
                            (''latency_ms'', JFloat (py_round latency_ms 1)),
                            (''error'', jstr_opt err)]]\<rparr>
                else c3)
      in tel\<lparr>pywhyllm := c4\<rparr>)"

definition record_verification_verdict ::
  "string \<Rightarrow> string \<Rightarrow> int \<Rightarrow> bool \<Rightarrow> real \<Rightarrow> string \<Rightarrow> bool \<Rightarrow> int \<Rightarrow> int
     \<Rightarrow> real \<Rightarrow> string \<Rightarrow> PipelineTelemetry \<Rightarrow> PipelineTelemetry" where
  "record_verification_verdict from_var to_var iteration is_grounded conf support_type
       has_refinement evidence_chunk_count evidence_block_chars now wall tel =
     (let v = verification tel;
          v1 = v\<lparr>total_judge_calls := total_judge_calls v + 1,
                 verdict_confidences := verdict_confidences v @ [conf]\<rparr>
      in record_event ''verification'' ''judge_verdict''
           [(''edge'', JStr (from_var @ ''->'' @ to_var)),
            (''iteration'', JInt iteration),
            (''is_grounded'', JBool is_grounded),
            (''confidence'', JFloat conf),
            (''support_type'', JStr support_type),
            (''has_refinement'', JBool has_refinement),
            (''evidence_chunk_count'', JInt evidence_chunk_count),
            (''evidence_block_chars'', JInt evidence_block_chars)]
           now wall (tel\<lparr>verification := v1\<rparr>))"

definition record_verification_final ::
  "string \<Rightarrow> string \<Rightarrow> bool \<Rightarrow> string option \<Rightarrow> int \<Rightarrow> PipelineTelemetry \<Rightarrow> PipelineTelemetry" where
  "record_verification_final from_var to_var grounded rejection_reason iterations_used tel =
     (let v = verification tel
      in if grounded
         then tel\<lparr>verification := v\<lparr>grounded_count := grounded_count v + 1\<rparr>\<rparr>
         else tel\<lparr>verification :=
                    v\<lparr>rejected_count := rejected_count v + 1,
                      rejection_reasons := rejection_reasons v @
                        [[(''edge'', JStr (from_var @ ''->'' @ to_var)),
                          (''reason'',
                             JStr (if truthy_str rejection_reason then the rejection_reason
                                   else ''unknown'')),
                          (''iterations'', JInt iterations_used)]]\<rparr>\<rparr>)"

definition record_var_id_resolve_miss ::
  "string \<Rightarrow> string \<Rightarrow> string \<Rightarrow> PipelineTelemetry \<Rightarrow> PipelineTelemetry" where
  "record_var_id_resolve_miss raw_id resolved_id match_type tel =
     tel\<lparr>var_id_resolve_misses := var_id_resolve_misses tel @
           [[(''raw_id'', JStr raw_id),
             (''resolved_id'', JStr resolved_id),
             (''match_type'', JStr match_type)]]\<rparr>"

subsection \<open>Sequences of calls\<close>

text \<open>
  One constructor per public mutating method of \<open>PipelineTelemetry\<close>, carrying the
  arguments of the call and the clock readings the method takes.
\<close>

datatype call =
    Reset real string
  | StageStart string real real string
  | StageEnd string "pydict option" real real string
  | Record string string pydict real string
  | LlmCall string int int real int int
  | LlmRetry string int string real string
  | LlmError string string bool real string
  | LlmFallback string real string
  | PywhyllmPair string string string string real "string option" bool
  | RecVerdict string string int bool real string bool int int real string
  | RecFinal string string bool "string option" int
  | RecResolveMiss string string string

fun apply_call :: "PipelineTelemetry \<Rightarrow> call \<Rightarrow> PipelineTelemetry" where
  "apply_call tel (Reset now wall) = reset now wall tel"
| "apply_call tel (StageStart stg t0 now wall) = stage_start stg t0 now wall tel"
| "apply_call tel (StageEnd stg extra t1 now wall) = stage_end stg extra t1 now wall tel"
| "apply_call tel (Record stg evt dat now wall) = record_event stg evt dat now wall tel"
| "apply_call tel (LlmCall model pc cc lat pt ct) = record_llm_call model pc cc lat pt ct tel"
| "apply_call tel (LlmRetry model attempt err now wall) =
     record_llm_retry model attempt err now wall tel"
| "apply_call tel (LlmError model err q now wall) = record_llm_error model err q now wall tel"
| "apply_call tel (LlmFallback model now wall) = record_llm_fallback model now wall tel"
| "apply_call tel (PywhyllmPair v1 v2 ans raw lat err nrm) =
     record_pywhyllm_pair v1 v2 ans raw lat err nrm tel"
| "apply_call tel (RecVerdict f t it g conf st hr n m now wall) =
     record_verification_verdict f t it g conf st hr n m now wall tel"
| "apply_call tel (RecFinal f t g reason its) =
     record_verification_final f t g reason its tel"
| "apply_call tel (RecResolveMiss r s m) = record_var_id_resolve_miss r s m tel"

definition run :: "PipelineTelemetry \<Rightarrow> call list \<Rightarrow> PipelineTelemetry" where
  "run tel cs = foldl apply_call tel cs"

subsection \<open>Predicates and measures over calls and states\<close>

text \<open>Which calls are \<open>reset()\<close>, and which are \<open>record_verification_final\<close>.\<close>

fun is_reset :: "call \<Rightarrow> bool" where
  "is_reset (Reset _ _) = True"
| "is_reset _ = False"

fun is_final :: "call \<Rightarrow> bool" where
  "is_final (RecFinal _ _ _ _ _) = True"
| "is_final _ = False"

text \<open>The sum of the five outcome counters of the pairwise stage.\<close>

definition pairs_sum :: "PyWhyLLMCounter \<Rightarrow> int" where
  "pairs_sum c = pairs_a c + pairs_b c + pairs_c c + pairs_parse_fail c + pairs_exception c"

text \<open>The number of final outcomes counted: grounded plus rejected.\<close>

definition finals :: "VerificationCounter \<Rightarrow> int" where
  "finals v = grounded_count v + rejected_count v"

text \<open>
  \<open>record_llm_call\<close> calls that leave \<open>prompt_tokens\<close> at its default 0, from the
  other arguments \<open>(model, prompt_chars, completion_chars, latency_ms, completion_tokens)\<close>.
\<close>

definition default_llm_calls :: "(string \<times> int \<times> int \<times> real \<times> int) list \<Rightarrow> call list" where
  "default_llm_calls xs = map (\<lambda>(m, pc, cc, lat, ct). LlmCall m pc cc lat 0 ct) xs"

text \<open>The number of events of the log with a given stage and event name.\<close>

definition count_events :: "string \<Rightarrow> string \<Rightarrow> PipelineTelemetry \<Rightarrow> int" where
  "count_events stg evt tel =
     int (length (filter (\<lambda>e. stage e = stg \<and> event e = evt) (events tel)))"

text \<open>
  The number of \<open>llm/error\<close> events whose payload has \<open>is_quota\<close> true.
\<close>

definition count_quota_events :: "PipelineTelemetry \<Rightarrow> int" where
  "count_quota_events tel =
     int (length (filter (\<lambda>e. stage e = ''llm'' \<and> event e = ''error''
                              \<and> map_of (data e) ''is_quota'' = Some (JBool True))
                    (events tel)))"

text \<open>
  A call of the generic \<open>record\<close> that uses a stage and event name which one of the
  typed recorders emits.
\<close>

fun reserved :: "call \<Rightarrow> bool" where
  "reserved (Record stg evt _ _ _) =
     ((stg, evt) \<in> set [(''llm'', ''retry''), (''llm'', ''error''),
                        (''llm'', ''native_to_prompt_fallback''),
                        (''verification'', ''judge_verdict'')])"
| "reserved _ = False"

text \<open>The counters whose recorder appends an event agree with the log.\<close>

definition counters_match_events :: "PipelineTelemetry \<Rightarrow> bool" where
  "counters_match_events tel =
     (total_retries (llm tel) = count_events ''llm'' ''retry'' tel
      \<and> total_errors (llm tel) = count_events ''llm'' ''error'' tel
      \<and> total_quota_errors (llm tel) = count_quota_events tel
      \<and> total_fallbacks (llm tel) = count_events ''llm'' ''native_to_prompt_fallback'' tel
      \<and> total_judge_calls (verification tel) = count_events ''verification'' ''judge_verdict'' tel)"

subsection \<open>The summary and the dump\<close>

text \<open>\<open>sum(xs) / max(len(xs), 1)\<close>.\<close>

definition average :: "real list \<Rightarrow> real" where
  "average xs = sum_list xs / real (max (length xs) 1)"

text \<open>\<open>asdict(self.edge_dropout)\<close>: the fields in declaration order.\<close>

definition edge_dropout_asdict :: "EdgeDropoutTracker \<Rightarrow> pydict" where
  "edge_dropout_asdict e =
     [(''pywhyllm_proposed'', JInt (pywhyllm_proposed e)),
      (''langextract_proposed'', JInt (langextract_proposed e)),
      (''total_after_dedup'', JInt (total_after_dedup e)),
      (''after_mechanism_synthesis'', JInt (after_mechanism_synthesis e)),
      (''submitted_to_verification'', JInt (submitted_to_verification e)),
      (''grounded_by_verification'', JInt (grounded_by_verification e)),
      (''rejected_by_verification'', JInt (rejected_by_verification e)),
      (''node_not_found_errors'', JInt (node_not_found_errors e)),
      (''cycle_detected_errors'', JInt (cycle_detected_errors e)),
      (''other_add_errors'', JInt (other_add_errors e)),
      (''final_edges_in_graph'', JInt (final_edges_in_graph e))]"

text \<open>
  \<open>summary()\<close> reads the monotonic clock once (\<open>now\<close>) and assigns no attribute of the
  instance: it is a function of the state and of that reading.
\<close>

definition summary :: "real \<Rightarrow> PipelineTelemetry \<Rightarrow> pydict" where
  "summary now tel =
     (let total_run_time = now - run_start tel;
          avg_pywhyllm = average (per_call_latency_ms (pywhyllm tel));
          avg_llm = average (latency_samples_ms (llm tel))
      in [(''run_start_utc'', JStr (run_start_wall tel)),
          (''total_run_seconds'', JFloat (py_round total_run_time 2)),
          (''stage_durations_seconds'',
             JDict (map (\<lambda>(k, v). (k, JFloat (py_round v 2))) (stage_durations tel))),
          (''variables'', JDict
             [(''raw_discovered'', JInt (variable_count_raw tel)),
              (''after_canonicalization'', JInt (variable_count_canonical tel)),
              (''added_to_engine'', JInt (variable_count_added tel))]),
          (''llm_calls'', JDict
             [(''total'', JInt (total_calls (llm tel))),
              (''by_model'', JDict (map (\<lambda>(k, n). (k, JInt n)) (calls_by_model (llm tel)))),
              (''total_prompt_chars'', JInt (total_prompt_chars (llm tel))),
              (''total_completion_chars'', JInt (total_completion_chars (llm tel))),
              (''est_total_prompt_tokens'', JInt (total_prompt_tokens_est (llm tel))),
              (''avg_latency_ms'', JFloat (py_round avg_llm 1)),
              (''retries'', JInt (total_retries (llm tel))),
              (''errors'', JInt (total_errors (llm tel))),
              (''quota_errors'', JInt (total_quota_errors (llm tel))),
              (''fallbacks_to_prompt_injection'', JInt (total_fallbacks (llm tel)))]),
          (''pywhyllm_pairwise'', JDict
             [(''total_pairs'', JInt (total_pairs (pywhyllm tel))),
              (''theoretical_pairs_formula'', JStr ''C(n,2) = n*(n-1)/2''),
              (''edges_found_A'', JInt (pairs_a (pywhyllm tel))),
              (''edges_found_B'', JInt (pairs_b (pywhyllm tel))),
              (''no_relationship_C'', JInt (pairs_c (pywhyllm tel))),
              (''answers_recovered_via_normalization'', JInt (pairs_normalized (pywhyllm tel))),
              (''parse_failures'', JInt (pairs_parse_fail (pywhyllm tel))),
              (''exceptions'', JInt (pairs_exception (pywhyllm tel))),
              (''avg_latency_ms'', JFloat (py_round avg_pywhyllm 1))]),
          (''edge_dropout'', JDict (edge_dropout_asdict (edge_dropout tel))),
          (''verification'', JDict
             [(''edges_submitted'', JInt (total_edges_submitted (verification tel))),
              (''judge_calls'', JInt (total_judge_calls (verification tel))),
              (''adversarial_calls'', JInt (total_adversarial_calls (verification tel))),
              (''grounded'', JInt (grounded_count (verification tel))),
              (''rejected'', JInt (rejected_count (verification tel))),
              (''no_evidence_retrievals'', JInt (no_evidence_count (verification tel))),
              (''exhausted_iterations'', JInt (exhausted_iterations_count (verification tel))),
              (''duplicate_query_breaks'', JInt (duplicate_query_breaks (verification tel))),
              (''adversarial_rejections'', JInt (adversarial_rejections (verification tel))),
              (''avg_verdict_confidence'',
                 JFloat (py_round (average (verdict_confidences (verification tel))) 3)),
              (''rejection_reasons'',
                 JList (map JDict (take 50 (rejection_reasons (verification tel)))))]),
          (''var_id_resolve_misses'', JList (map JDict (take 30 (var_id_resolve_misses tel)))),
          (''evidence_cache_size'', JInt (evidence_cache_size tel))])"





text \<open>Exceptions of the library calls, for the examples.\<close>

datatype os_error =
  FileExistsError | NotADirectoryError | IsADirectoryError | FileNotFoundError | ValueError

section \<open>The verification judge (\<open>src/verification/judge.py\<close>)\<close>

text \<open>
  Two characters of the judge's texts lie beyond the 256 of \<^typ>\<open>char\<close>: the em dash
  U+2014 of the prompts and the arrow U+2192 of the log messages. Each is given one
  \<^typ>\<open>char\<close> that occurs nowhere else in the source (\<open>0x97\<close> and \<open>0x1A\<close>), so that
  \<open>len\<close> and slices count it once, as Python does.
\<close>

definition nl :: string where
  "nl = [CHR 0x0A]"

definition em_dash :: string where
  "em_dash = [CHR 0x97]"

definition arrow :: string where
  "arrow = [CHR 0x1A]"

datatype SupportType = DIRECT_CAUSAL | CORRELATION_ONLY | IRRELEVANT

record VerificationVerdict =
  is_grounded :: bool
  support_type :: SupportType
  supporting_quote :: "string option"
  rejection_reason :: "string option"
  confidence :: real
  suggested_refinement_query :: "string option"

record AdversarialVerdict =
  still_grounded :: bool
  alternative_explanations :: "string list"
  assumptions_required :: "string list"
  conditions :: "string list"
  adv_confidence :: real

text \<open>
  Modelled from the spec: the declaration of \<open>EvidenceBundle\<close> (\<open>src/models/evidence.py\<close>)
  is not among the sources. The spec gives a retrieved chunk its \<open>content\<close>, its
  \<open>content_hash\<close>, a \<open>source\<close> (document id, document title) and a \<open>location\<close> (page
  number, section name); the judge tests title, page number and section name for
  truthiness, so they are optional here.
\<close>

record EvidenceSource =
  doc_id :: string
  doc_title :: "string option"

record EvidenceLocation =
  page_number :: "int option"
  section_name :: "string option"

record EvidenceBundle =
  content :: string
  content_hash :: string
  source :: EvidenceSource
  location :: EvidenceLocation

definition GROUNDING_SYSTEM :: string where
  \<open>GROUNDING_SYSTEM = concat
      [''You are a causal-inference verifier.'', nl,
       ''Your task is to determine whether provided evidence TEXT supports'', nl,
       ''a proposed causal relationship.'', nl, nl, ''Rules:'', nl,
       ''- Accept DIRECT causal evidence (A causes B, A leads to B, A'', nl,
       ''  drives B, A results in B) '', em_dash, '' the evidence must explicitly mention'', nl,
       ''  or clearly imply a causal mechanism.'', nl,
       ''- Accept well-established domain knowledge stated in business'', nl,
       ''  plans, strategy documents, or industry analyses (e.g. "marketing'', nl,
       ''  increases customer acquisition" is a widely accepted causal claim'', nl,
       ''  even without a controlled experiment).'', nl,
       ''- Accept evidence describing plans, strategies, or projections that'', nl,
       ''  express domain-expert causal beliefs '', em_dash, '' these are valid for initial'',
       nl, ''  model construction even if they lack experimental proof.'', nl,
       ''- If the text only shows two variables co-occurring without ANY'', nl,
       ''  implied mechanism or plausible domain-logic connection, classify'', nl,
       ''  as "correlation_only" and set is_grounded=false.'', nl,
       ''- If the text is about unrelated topics, classify as "irrelevant"'', nl,
       ''  and set is_grounded=false.'', nl,
       ''- When is_grounded=true, extract the EXACT verbatim quote (no'', nl,
       ''  paraphrasing) as supporting_quote.'', nl,
       ''- When is_grounded=false and you believe better evidence might exist'', nl,
       ''  in the document corpus, suggest a refined search query in'', nl,
       ''  suggested_refinement_query.  If you do not believe better evidence'', nl,
       ''  exists, leave it null.'', nl,
       ''- Be fair and constructive: for initial graph construction, your'', nl,
       ''  primary goal is to identify genuine causal relationships even'', nl,
       ''  when evidence is indirect.  Accept claims when the evidence'', nl,
       ''  plausibly supports a causal link '', em_dash, '' err on the side of inclusion'', nl,
       ''  with an appropriately calibrated confidence score rather than'', nl,
       ''  rejecting borderline cases outright.'']\<close>

definition GROUNDING_TEMPLATE :: "string \<Rightarrow> string \<Rightarrow> string \<Rightarrow> string \<Rightarrow> string" where
  \<open>GROUNDING_TEMPLATE from_var to_var mechanism evidence_block = concat
      [''## Proposed Causal Edge'', nl, ''- **Cause variable:** '', from_var, nl,
       ''- **Effect variable:** '', to_var, nl, ''- **Proposed mechanism:** '', mechanism, nl,
       nl, ''## Retrieved Evidence Chunks'', nl, evidence_block, nl, nl, ''## Task'', nl,
       ''Does the evidence above explicitly support the claim that'', nl, ''**'', from_var,
       ''** causes **'', to_var, ''** through the mechanism described?'', nl,
       ''Evaluate carefully and respond with a structured verdict.'']\<close>

definition ADVERSARIAL_SYSTEM :: string where
  \<open>ADVERSARIAL_SYSTEM = concat
      [''You are a devil's advocate reviewer for causal claims.'', nl,
       ''Assume the proposed relationship might be spurious and look for'', nl,
       ''reasons why the evidence might be misleading.'', nl, nl, ''Consider:'', nl,
       ''- Confounding variables that could explain the association'', nl,
       ''- Reverse causation (B causes A instead)'', nl, ''- Selection bias in the evidence'',
       nl, ''- Measurement issues'', nl, ''- Temporal ordering problems'', nl, nl,
       ''IMPORTANT NUANCE '', em_dash, '' Evidence types have different standards:'', nl,
       ''- **Academic / empirical studies**: require rigorous causal evidence.'', nl,
       ''- **Business plans, projections, strategy documents**: these express'', nl,
       ''  domain-expert causal beliefs grounded in industry knowledge.  A'', nl,
       ''  business plan stating "marketing drives customer acquisition" is a'', nl,
       ''  valid causal claim based on established business logic, even if it'', nl,
       ''  is forward-looking.  Do NOT reject claims merely because they come'', nl,
       ''  from a planning or strategy document.'', nl,
       ''- **Mission statements and aspirational text**: these are weaker but'', nl,
       ''  still signal believed causal relationships.'', nl, nl, ''Be thorough but fair '',
       em_dash, '' if after scrutiny the claim genuinely holds'', nl,
       ''as a reasonable causal belief supported by the evidence context, set'', nl,
       ''still_grounded=true.'']\<close>

definition ADVERSARIAL_TEMPLATE :: "string \<Rightarrow> string \<Rightarrow> string \<Rightarrow> string \<Rightarrow> string" where
  \<open>ADVERSARIAL_TEMPLATE from_var to_var mechanism quote = concat
      [''## Proposed Causal Edge'', nl, ''- **Cause variable:** '', from_var, nl,
       ''- **Effect variable:** '', to_var, nl, ''- **Proposed mechanism:** '', mechanism, nl,
       ''- **Supporting quote:** '', quote, nl, nl, ''## Task'', nl,
       ''Assume this causal relationship is spurious.  What alternative'', nl,
       ''explanations could account for the observed evidence?  What'', nl,
       ''assumptions must hold for the causal claim to be valid?'']\<close>

text \<open>\<open>str(n)\<close> of an integer, and \<open>sep.join(parts)\<close>.\<close>

definition digit :: "nat \<Rightarrow> char" where
  "digit d = ''0123456789'' ! d"

fun show_nat :: "nat \<Rightarrow> string" where
  "show_nat n = (if n < 10 then [digit n] else show_nat (n div 10) @ [digit (n mod 10)])"

declare show_nat.simps [simp del]

definition show_int :: "int \<Rightarrow> string" where
  "show_int i = (if i < 0 then CHR ''-'' # show_nat (nat (- i)) else show_nat (nat i))"

text \<open>The number a string of decimal digits denotes.\<close>

definition digits_value :: "string \<Rightarrow> nat" where
  "digits_value s = foldl (\<lambda>a c. 10 * a + (of_char c - 48)) 0 s"

fun str_join :: "string \<Rightarrow> string list \<Rightarrow> string" where
  "str_join sep [] = []"
| "str_join sep [x] = x"
| "str_join sep (x # y # ys) = x @ sep @ str_join sep (y # ys)"

text \<open>
  \<open>_format_evidence\<close>: the label of the source (\<open>doc_title or doc_id\<close>), the location
  descriptor, and the loop over \<open>enumerate(chunks, 1)\<close>.
\<close>

definition chunk_source :: "EvidenceBundle \<Rightarrow> string" where
  "chunk_source chunk =
     (if truthy_str (doc_title (source chunk)) then the (doc_title (source chunk))
      else doc_id (source chunk))"

definition chunk_loc :: "EvidenceBundle \<Rightarrow> string" where
  "chunk_loc chunk =
     (let loc_parts =
            (case page_number (location chunk) of
               None \<Rightarrow> []
             | Some n \<Rightarrow> if n \<noteq> 0 then [''p.'' @ show_int n] else [])
            @ (if truthy_str (section_name (location chunk))
               then [the (section_name (location chunk))] else [])
      in if loc_parts \<noteq> [] then str_join '', '' loc_parts else ''unknown location'')"

definition chunk_part :: "nat \<Rightarrow> EvidenceBundle \<Rightarrow> string" where
  "chunk_part i chunk =
     ''### Chunk '' @ show_nat i @ '' ['' @ chunk_source chunk @ '' '' @ em_dash @ '' ''
       @ chunk_loc chunk @ '']'' @ nl @ content chunk @ nl"

fun format_parts :: "nat \<Rightarrow> EvidenceBundle list \<Rightarrow> string list" where
  "format_parts i [] = []"
| "format_parts i (chunk # chunks) = chunk_part i chunk # format_parts (Suc i) chunks"

definition format_evidence :: "EvidenceBundle list \<Rightarrow> string" where
  "format_evidence chunks =
     (if chunks = [] then ''(no evidence retrieved)''
      else str_join nl (format_parts 1 chunks))"

text \<open>
  The oracle client (\<open>src/agent/llm_client.py\<close>, not among the sources) is a parameter:
  \<open>generate_structured_native\<close> takes the prompt, the system prompt and the model, returns
  a verdict or raises, and may itself write to the process-wide telemetry instance, which
  is threaded through it. \<^typ>\<open>PipelineTelemetry option\<close> is the module variable
  \<open>_instance\<close>.
\<close>

datatype oracle_error = OracleError string

type_synonym 'v llm_client =
  "string \<Rightarrow> string \<Rightarrow> string \<Rightarrow> PipelineTelemetry option
     \<Rightarrow> (oracle_error + 'v) \<times> PipelineTelemetry option"

text \<open>\<open>get_telemetry()\<close>: the singleton, constructed at the first call.\<close>

definition get_telemetry ::
  "real \<Rightarrow> string \<Rightarrow> PipelineTelemetry option \<Rightarrow> PipelineTelemetry \<times> PipelineTelemetry option" where
  "get_telemetry now wall inst =
     (case inst of
        None \<Rightarrow> (init now wall, Some (init now wall))
      | Some tel \<Rightarrow> (tel, Some tel))"

text \<open>
  The records the judge hands to its module logger (\<open>_logger.info(msg, *args)\<close>): the
  message template and the arguments, as \<open>logging\<close> keeps them.
\<close>

record LogRecord =
  msg :: string
  args :: "jval list"

fun support_type_value :: "SupportType \<Rightarrow> string" where
  "support_type_value DIRECT_CAUSAL = ''direct_causal''"
| "support_type_value CORRELATION_ONLY = ''correlation_only''"
| "support_type_value IRRELEVANT = ''irrelevant''"

text \<open>
  \<open>evaluate\<close>: \<open>jt0\<close> and \<open>jt1\<close> are the clock readings around the call of the oracle
  client. An exception of the client propagates, so the second record is not logged
  then.
\<close>

definition evaluate ::
  "VerificationVerdict llm_client \<Rightarrow> string \<Rightarrow> string \<Rightarrow> string \<Rightarrow> string \<Rightarrow> EvidenceBundle list
     \<Rightarrow> real \<Rightarrow> real \<Rightarrow> PipelineTelemetry option \<Rightarrow> LogRecord list
     \<Rightarrow> (oracle_error + VerificationVerdict) \<times> PipelineTelemetry option \<times> LogRecord list" where
  "evaluate generate_structured_native judge_model from_var to_var mechanism evidence_chunks
       jt0 jt1 inst logged =
     (let evidence_block = format_evidence evidence_chunks;
          prompt = GROUNDING_TEMPLATE from_var to_var mechanism evidence_block;
          full_prompt_chars = int (length prompt) + int (length GROUNDING_SYSTEM);
          log1 = logged @
            [\<lparr>msg = ''[TELEMETRY] Judge evaluate %s'' @ arrow @ ''%s: prompt_chars=%d ''
                     @ ''est_tokens=%d evidence_chunks=%d evidence_block_chars=%d'',
              args = [JStr from_var, JStr to_var, JInt full_prompt_chars,
                      JInt (full_prompt_chars div 4), JInt (int (length evidence_chunks)),
                      JInt (int (length evidence_block))]\<rparr>];
          (res, inst1) = generate_structured_native prompt GROUNDING_SYSTEM judge_model inst
      in case res of
           Inl e \<Rightarrow> (Inl e, inst1, log1)
         | Inr verdict \<Rightarrow>
             (Inr verdict, inst1,
              log1 @
                [\<lparr>msg = ''[TELEMETRY] Judge verdict for %s'' @ arrow @ ''%s: grounded=%s  ''
                         @ ''type=%s  confidence=%.2f  latency=%.1fs  rejection_reason=%r  ''
                         @ ''refinement=%r'',
                  args = [JStr from_var, JStr to_var, JBool (is_grounded verdict),
                          JStr (support_type_value (support_type verdict)),
                          JFloat (confidence verdict), JFloat (jt1 - jt0),
                          jstr_opt (rejection_reason verdict),
                          JStr (take 80
                                 (if truthy_str (suggested_refinement_query verdict)
                                  then the (suggested_refinement_query verdict)
                                  else []))]\<rparr>]))"

text \<open>
  \<open>evaluate_adversarial\<close>: the counter is incremented on the singleton before the
  client is called; \<open>now\<close> and \<open>wall\<close> are the readings \<open>get_telemetry()\<close> takes if it
  has to construct the instance, \<open>at0\<close> and \<open>at1\<close> those around the call of the client.
\<close>

definition count_adversarial_call :: "PipelineTelemetry \<Rightarrow> PipelineTelemetry" where
  "count_adversarial_call tel =
     tel\<lparr>verification :=
           (verification tel)\<lparr>total_adversarial_calls :=
                                total_adversarial_calls (verification tel) + 1\<rparr>\<rparr>"

definition evaluate_adversarial ::
  "AdversarialVerdict llm_client \<Rightarrow> string \<Rightarrow> string \<Rightarrow> string \<Rightarrow> string \<Rightarrow> string option
     \<Rightarrow> real \<Rightarrow> string \<Rightarrow> real \<Rightarrow> real \<Rightarrow> PipelineTelemetry option \<Rightarrow> LogRecord list
     \<Rightarrow> (oracle_error + AdversarialVerdict) \<times> PipelineTelemetry option \<times> LogRecord list" where
  "evaluate_adversarial generate_structured_native judge_model from_var to_var mechanism
       quote now wall at0 at1 inst logged =
     (let prompt = ADVERSARIAL_TEMPLATE from_var to_var mechanism
                     (if truthy_str quote then the quote else ''(no quote extracted)'');
          (tel, inst1) = get_telemetry now wall inst;
          inst2 = Some (count_adversarial_call tel);
          (res, inst3) = generate_structured_native prompt ADVERSARIAL_SYSTEM judge_model inst2
      in case res of
           Inl e \<Rightarrow> (Inl e, inst3, logged)
         | Inr verdict \<Rightarrow>
             (Inr verdict, inst3,
              logged @
                [\<lparr>msg = ''[TELEMETRY] Adversarial verdict for %s'' @ arrow
                         @ ''%s: still_grounded=%s  alternatives=%d  confidence=%.2f  ''
                         @ ''latency=%.1fs'',
                  args = [JStr from_var, JStr to_var, JBool (still_grounded verdict),
                          JInt (int (length (alternative_explanations verdict))),
                          JFloat (adv_confidence verdict), JFloat (at1 - at0)]\<rparr>]))"

section \<open>The verification configuration (\<open>src/config.py\<close>)\<close>

record VerificationConfig =
  max_judge_iterations :: int
  grounding_confidence_threshold :: real
  enable_adversarial_pass :: bool
  judge_model_name :: string
  llm_semaphore_limit :: int
  max_retries :: int
  backoff_base :: real
  backoff_jitter_max :: real
  retrieval_top_k :: int

text \<open>
  The values given to the constructor, by keyword, environment variable or \<open>.env\<close> file,
  already of the field's type; \<open>None\<close> where none is given.
\<close>

record config_overrides =
  o_max_judge_iterations :: "int option"
  o_grounding_confidence_threshold :: "real option"
  o_enable_adversarial_pass :: "bool option"
  o_judge_model :: "string option"
  o_llm_semaphore_limit :: "int option"
  o_max_retries :: "int option"
  o_backoff_base :: "real option"
  o_backoff_jitter_max :: "real option"
  o_retrieval_top_k :: "int option"

definition no_overrides :: config_overrides where
  "no_overrides =
     \<lparr>o_max_judge_iterations = None, o_grounding_confidence_threshold = None,
      o_enable_adversarial_pass = None, o_judge_model = None, o_llm_semaphore_limit = None,
      o_max_retries = None, o_backoff_base = None, o_backoff_jitter_max = None,
      o_retrieval_top_k = None\<rparr>"

fun or_default :: "'a option \<Rightarrow> 'a \<Rightarrow> 'a" where
  "or_default None d = d"
| "or_default (Some v) d = v"

text \<open>
  The fields with their \<open>Field(default=...)\<close>, and the constraints (\<open>ge\<close>, \<open>le\<close>) the
  declarations carry; the names of the fields that violate one make the
  \<open>ValidationError\<close>.
\<close>

definition config_values :: "config_overrides \<Rightarrow> VerificationConfig" where
  "config_values ov =
     \<lparr>max_judge_iterations = or_default (o_max_judge_iterations ov) 2,
      grounding_confidence_threshold = or_default (o_grounding_confidence_threshold ov) 0.4,
      enable_adversarial_pass = or_default (o_enable_adversarial_pass ov) False,
      judge_model_name = or_default (o_judge_model ov) ''gemini-2.5-flash'',
      llm_semaphore_limit = or_default (o_llm_semaphore_limit ov) 12,
      max_retries = or_default (o_max_retries ov) 5,
      backoff_base = or_default (o_backoff_base ov) 2.0,
      backoff_jitter_max = or_default (o_backoff_jitter_max ov) 5.0,
      retrieval_top_k = or_default (o_retrieval_top_k ov) 5\<rparr>"

definition constraint_violations :: "VerificationConfig \<Rightarrow> string list" where
  "constraint_violations c =
     (if 0.0 \<le> grounding_confidence_threshold c \<and> grounding_confidence_threshold c \<le> 1.0
      then [] else [''grounding_confidence_threshold''])
     @ (if 1 \<le> llm_semaphore_limit c then [] else [''llm_semaphore_limit''])
     @ (if 1 \<le> max_retries c then [] else [''max_retries''])
     @ (if 1 \<le> retrieval_top_k c then [] else [''retrieval_top_k''])"

datatype config_error = ValidationError "string list"

definition new_VerificationConfig :: "config_overrides \<Rightarrow> config_error + VerificationConfig" where
  "new_VerificationConfig ov =
     (let c = config_values ov; bad = constraint_violations c
      in if bad = [] then Inr c else Inl (ValidationError bad))"

section \<open>Verified properties of the telemetry engine\<close>

lemma py_round_zero: "py_round 0 n = 0"
  by (simp add: py_round_def round_half_even_def)

text \<open>
  Claim C8. After \<open>reset()\<close>, whatever the state was, the instance is the state of a
  freshly constructed \<open>PipelineTelemetry\<close> (one taking the same two clock readings; with
  other readings it differs in \<open>run_start\<close> and \<open>run_start_wall\<close> only), it behaves
  like one under every later sequence of calls, the event log, the stage tables and the
  resolve-miss list are empty and every counter of the four counter groups and the
  variable counts is zero.
\<close>

theorem reset_equals_fresh:
  "reset now wall tel = init now wall
   \<and> reset now wall tel = (init now' wall')\<lparr>run_start := now, run_start_wall := wall\<rparr>
   \<and> run (reset now wall tel) cs = run (init now wall) cs
   \<and> events (reset now wall tel) = []
   \<and> stage_starts (reset now wall tel) = []
   \<and> stage_durations (reset now wall tel) = []
   \<and> llm (reset now wall tel) =
       \<lparr>total_calls = 0, total_prompt_chars = 0, total_completion_chars = 0,
        total_prompt_tokens_est = 0, total_retries = 0, total_errors = 0,
        total_quota_errors = 0, total_fallbacks = 0, calls_by_model = [],
        latency_samples_ms = []\<rparr>
   \<and> pywhyllm (reset now wall tel) =
       \<lparr>total_pairs = 0, pairs_a = 0, pairs_b = 0, pairs_c = 0, pairs_normalized = 0,
        pairs_parse_fail = 0, pairs_exception = 0, raw_outputs = [],
        per_call_latency_ms = []\<rparr>
   \<and> verification (reset now wall tel) =
       \<lparr>total_edges_submitted = 0, total_judge_calls = 0, total_adversarial_calls = 0,
        grounded_count = 0, rejected_count = 0, no_evidence_count = 0,
        exhausted_iterations_count = 0, duplicate_query_breaks = 0,
        adversarial_rejections = 0, rejection_reasons = [], verdict_confidences = []\<rparr>
   \<and> edge_dropout (reset now wall tel) =
       \<lparr>pywhyllm_proposed = 0, langextract_proposed = 0, total_after_dedup = 0,
        after_mechanism_synthesis = 0, submitted_to_verification = 0,
        grounded_by_verification = 0, rejected_by_verification = 0,
        node_not_found_errors = 0, cycle_detected_errors = 0, other_add_errors = 0,
        final_edges_in_graph = 0\<rparr>
   \<and> variable_count_raw (reset now wall tel) = 0
   \<and> variable_count_canonical (reset now wall tel) = 0
   \<and> variable_count_added (reset now wall tel) = 0
   \<and> evidence_cache_size (reset now wall tel) = 0
   \<and> var_id_resolve_misses (reset now wall tel) = []"
proof -
  have fresh: "reset now wall tel = init now wall"
    by (simp add: init_def reset_def)
  have stamps: "reset now wall tel = (init now' wall')\<lparr>run_start := now, run_start_wall := wall\<rparr>"
    by (simp add: init_def reset_def)
  have fields: "events (reset now wall tel) = []" "stage_starts (reset now wall tel) = []"
    "stage_durations (reset now wall tel) = []"
    "variable_count_raw (reset now wall tel) = 0"
    "variable_count_canonical (reset now wall tel) = 0"
    "variable_count_added (reset now wall tel) = 0"
    "evidence_cache_size (reset now wall tel) = 0"
    "var_id_resolve_misses (reset now wall tel) = []"
    by (simp_all add: reset_def)
  have counters: "llm (reset now wall tel) = new_LLMCallCounter"
    "pywhyllm (reset now wall tel) = new_PyWhyLLMCounter"
    "verification (reset now wall tel) = new_VerificationCounter"
    "edge_dropout (reset now wall tel) = new_EdgeDropoutTracker"
    by (simp_all add: reset_def)
  show ?thesis
    unfolding counters fields
    using fresh stamps
    by (simp add: new_LLMCallCounter_def new_PyWhyLLMCounter_def
        new_VerificationCounter_def new_EdgeDropoutTracker_def)
qed

text \<open>
  Claim C7. When no start is stored for the stage, \<open>stage_end\<close> has no failing branch:
  it stores a duration of exactly zero for the stage and appends one \<open>stage_end\<close> event
  for it, whose payload is \<open>elapsed_seconds = 0.0\<close> updated with the caller's \<open>extra\<close>.
\<close>

theorem stage_end_without_start:
  assumes "map_of (stage_starts tel) stg = None"
  shows "map_of (stage_durations (stage_end stg extra t1 now wall tel)) stg = Some 0
    \<and> events (stage_end stg extra t1 now wall tel) =
        events tel @
          [\<lparr>stage = stg, event = ''stage_end'', timestamp = now, wall_clock = wall,
            data = (case extra of
                      None \<Rightarrow> [(''elapsed_seconds'', JFloat 0)]
                    | Some ex \<Rightarrow> dict_update [(''elapsed_seconds'', JFloat 0)] ex)\<rparr>]"
proof -
  have el: "stage_elapsed stg t1 tel = 0"
    using assms by (simp add: stage_elapsed_def)
  have dur: "map_of (AList.update stg 0 (stage_durations tel)) stg = Some 0"
    by (simp add: update_conv')
  show ?thesis
    using dur
    by (cases extra) (simp_all add: stage_end_def el record_event_def py_round_zero Let_def)
qed

theorem stage_end_without_start_witness:
  "map_of (stage_starts (init 5 ''w0'')) ''verify'' = None
   \<and> map_of (stage_durations (stage_end ''verify'' None 7 8 ''w1'' (init 5 ''w0''))) ''verify''
       = Some 0
   \<and> events (stage_end ''verify'' None 7 8 ''w1'' (init 5 ''w0'')) =
        [\<lparr>stage = ''verify'', event = ''stage_end'', timestamp = 8, wall_clock = ''w1'',
          data = [(''elapsed_seconds'', JFloat 0)]\<rparr>]"
proof -
  have h: "map_of (stage_starts (init 5 ''w0'')) ''verify'' = None"
    by (simp add: init_def reset_def)
  have e: "events (init 5 ''w0'') = []"
    by (simp add: init_def reset_def)
  show ?thesis
    using h stage_end_without_start [OF h, of None 7 8 "''w1''"] e by simp
qed

lemma run_Nil: "run tel [] = tel"
  by (simp add: run_def)

lemma run_Cons: "run tel (c # cs) = run (apply_call tel c) cs"
  by (simp add: run_def)

lemma count_answer_frame:
  "total_pairs (count_answer err ans c) = total_pairs c"
  "raw_outputs (count_answer err ans c) = raw_outputs c"
  by (simp_all add: count_answer_def)

lemma count_answer_sum: "pairs_sum (count_answer err ans c) = pairs_sum c + 1"
  by (simp add: count_answer_def pairs_sum_def)

lemma pairs_sum_frame:
  "pairs_sum (c\<lparr>pairs_normalized := n\<rparr>) = pairs_sum c"
  "pairs_sum (c\<lparr>raw_outputs := r\<rparr>) = pairs_sum c"
  "pairs_sum (c\<lparr>total_pairs := k\<rparr>) = pairs_sum c"
  "pairs_sum (c\<lparr>per_call_latency_ms := l\<rparr>) = pairs_sum c"
  by (simp_all add: pairs_sum_def)

lemma pair_step:
  "total_pairs (pywhyllm (record_pywhyllm_pair v1 v2 ans raw lat err nrm tel))
     = total_pairs (pywhyllm tel) + 1"
  "pairs_sum (pywhyllm (record_pywhyllm_pair v1 v2 ans raw lat err nrm tel))
     = pairs_sum (pywhyllm tel) + 1"
  by (simp_all add: record_pywhyllm_pair_def Let_def count_answer_frame count_answer_sum
      pairs_sum_frame)

lemma pywhyllm_frame:
  "pywhyllm (stage_start stg t0 now wall tel) = pywhyllm tel"
  "pywhyllm (stage_end stg extra t1 now wall tel) = pywhyllm tel"
  "pywhyllm (record_event stg evt dat now wall tel) = pywhyllm tel"
  "pywhyllm (record_llm_call model pc cc lat pt ct tel) = pywhyllm tel"
  "pywhyllm (record_llm_retry model attempt err now wall tel) = pywhyllm tel"
  "pywhyllm (record_llm_error model err q now wall tel) = pywhyllm tel"
  "pywhyllm (record_llm_fallback model now wall tel) = pywhyllm tel"
  "pywhyllm (record_verification_verdict f t it g conf st hr n m now wall tel) = pywhyllm tel"
  "pywhyllm (record_verification_final f t g reason its tel) = pywhyllm tel"
  "pywhyllm (record_var_id_resolve_miss r s m' tel) = pywhyllm tel"
  by (simp_all add: stage_start_def stage_end_def record_event_def record_llm_call_def
      record_llm_retry_def record_llm_error_def record_llm_fallback_def
      record_verification_verdict_def record_verification_final_def
      record_var_id_resolve_miss_def Let_def)

lemma pairs_step:
  assumes "total_pairs (pywhyllm tel) = pairs_sum (pywhyllm tel)"
  shows "total_pairs (pywhyllm (apply_call tel c)) = pairs_sum (pywhyllm (apply_call tel c))"
proof (cases c)
  case (Reset now wall)
  then show ?thesis by (simp add: reset_def new_PyWhyLLMCounter_def pairs_sum_def)
next
  case (PywhyllmPair v1 v2 ans raw lat err nrm)
  then show ?thesis using assms by (simp add: pair_step)
qed (use assms in \<open>simp_all add: pywhyllm_frame\<close>)

lemma pairs_run:
  "total_pairs (pywhyllm tel) = pairs_sum (pywhyllm tel)
   \<Longrightarrow> total_pairs (pywhyllm (run tel cs)) = pairs_sum (pywhyllm (run tel cs))"
  by (induction cs arbitrary: tel) (simp_all add: run_Nil run_Cons pairs_step)

lemma final_step:
  "finals (verification (record_verification_final f t g r its tel))
     = finals (verification tel) + 1"
  by (simp add: record_verification_final_def finals_def Let_def)

lemma finals_frame:
  "finals (verification (stage_start stg t0 now wall tel)) = finals (verification tel)"
  "finals (verification (stage_end stg extra t1 now wall tel)) = finals (verification tel)"
  "finals (verification (record_event stg evt dat now wall tel)) = finals (verification tel)"
  "finals (verification (record_llm_call model pc cc lat pt ct tel)) = finals (verification tel)"
  "finals (verification (record_llm_retry model attempt err now wall tel))
     = finals (verification tel)"
  "finals (verification (record_llm_error model err q now wall tel)) = finals (verification tel)"
  "finals (verification (record_llm_fallback model now wall tel)) = finals (verification tel)"
  "finals (verification (record_pywhyllm_pair v1 v2 ans raw lat err' nrm tel))
     = finals (verification tel)"
  "finals (verification (record_verification_verdict f t it g conf st hr n m now wall tel))
     = finals (verification tel)"
  "finals (verification (record_var_id_resolve_miss r s m' tel)) = finals (verification tel)"
  by (simp_all add: stage_start_def stage_end_def record_event_def record_llm_call_def
      record_llm_retry_def record_llm_error_def record_llm_fallback_def
      record_verification_verdict_def record_pywhyllm_pair_def
      record_var_id_resolve_miss_def Let_def finals_def)

lemma finals_step:
  "\<not> is_reset c \<Longrightarrow>
   finals (verification (apply_call tel c))
     = finals (verification tel) + (if is_final c then 1 else 0)"
  by (cases c) (simp_all add: final_step finals_frame)

lemma finals_run:
  "list_all (\<lambda>c. \<not> is_reset c) cs \<Longrightarrow>
   finals (verification (run tel cs))
     = finals (verification tel) + int (length (filter is_final cs))"
  by (induction cs arbitrary: tel) (simp_all add: run_Nil run_Cons finals_step)

text \<open>
  Claim C3. After any sequence of telemetry calls on a fresh instance that contains no
  \<open>reset()\<close> (in particular after any sequence of \<open>record_pywhyllm_pair\<close> and
  \<open>record_verification_final\<close> calls), \<open>pywhyllm.total_pairs\<close> is the sum of
  \<open>pairs_a\<close>, \<open>pairs_b\<close>, \<open>pairs_c\<close>, \<open>pairs_parse_fail\<close> and \<open>pairs_exception\<close>, and
  \<open>grounded_count + rejected_count\<close> is the number of \<open>record_verification_final\<close> calls
  made.
\<close>

theorem pair_and_final_counters:
  assumes "list_all (\<lambda>c. \<not> is_reset c) cs"
  shows "total_pairs (pywhyllm (run (init now wall) cs))
           = pairs_a (pywhyllm (run (init now wall) cs))
             + pairs_b (pywhyllm (run (init now wall) cs))
             + pairs_c (pywhyllm (run (init now wall) cs))
             + pairs_parse_fail (pywhyllm (run (init now wall) cs))
             + pairs_exception (pywhyllm (run (init now wall) cs))
    \<and> grounded_count (verification (run (init now wall) cs))
        + rejected_count (verification (run (init now wall) cs))
           = int (length (filter is_final cs))"
proof -
  have p0: "total_pairs (pywhyllm (init now wall)) = pairs_sum (pywhyllm (init now wall))"
    by (simp add: init_def reset_def new_PyWhyLLMCounter_def pairs_sum_def)
  have f0: "finals (verification (init now wall)) = 0"
    by (simp add: init_def reset_def new_VerificationCounter_def finals_def)
  from pairs_run [OF p0, of cs] finals_run [OF assms, of "init now wall"] f0
  show ?thesis by (simp add: pairs_sum_def finals_def)
qed

theorem pair_and_final_counters_witness:
  "list_all (\<lambda>c. \<not> is_reset c)
     [PywhyllmPair ''x'' ''y'' ''A'' ''x causes y'' 500 None False,
      PywhyllmPair ''p'' ''q'' [] ''confused output'' 300 None False,
      RecFinal ''x'' ''y'' True None 1,
      RecFinal ''a'' ''b'' False (Some ''no_evidence'') 3]
   \<and> total_pairs (pywhyllm (run (init 0 ''w'')
       [PywhyllmPair ''x'' ''y'' ''A'' ''x causes y'' 500 None False,
        PywhyllmPair ''p'' ''q'' [] ''confused output'' 300 None False,
        RecFinal ''x'' ''y'' True None 1,
        RecFinal ''a'' ''b'' False (Some ''no_evidence'') 3])) = 2
   \<and> grounded_count (verification (run (init 0 ''w'')
       [PywhyllmPair ''x'' ''y'' ''A'' ''x causes y'' 500 None False,
        PywhyllmPair ''p'' ''q'' [] ''confused output'' 300 None False,
        RecFinal ''x'' ''y'' True None 1,
        RecFinal ''a'' ''b'' False (Some ''no_evidence'') 3]))
     + rejected_count (verification (run (init 0 ''w'')
       [PywhyllmPair ''x'' ''y'' ''A'' ''x causes y'' 500 None False,
        PywhyllmPair ''p'' ''q'' [] ''confused output'' 300 None False,
        RecFinal ''x'' ''y'' True None 1,
        RecFinal ''a'' ''b'' False (Some ''no_evidence'') 3])) = 2"
proof -
  let ?cs = "[PywhyllmPair ''x'' ''y'' ''A'' ''x causes y'' 500 None False,
      PywhyllmPair ''p'' ''q'' [] ''confused output'' 300 None False,
      RecFinal ''x'' ''y'' True None 1,
      RecFinal ''a'' ''b'' False (Some ''no_evidence'') 3]"
  have h: "list_all (\<lambda>c. \<not> is_reset c) ?cs" by simp
  have tp: "total_pairs (pywhyllm (run (init 0 ''w'') ?cs)) = 2"
    by (simp add: run_def init_def reset_def new_PyWhyLLMCounter_def record_pywhyllm_pair_def
        record_verification_final_def count_answer_def Let_def)
  from pair_and_final_counters [OF h, of 0 "''w''"] h tp show ?thesis by simp
qed

lemma llm_call_est:
  "total_prompt_tokens_est (llm (record_llm_call m pc cc lat pt ct tel)) =
     (if pt \<noteq> 0 then max (total_prompt_tokens_est (llm tel) + pc div 4) pt
      else total_prompt_tokens_est (llm tel) + pc div 4)"
  by (simp add: record_llm_call_def Let_def)

lemma default_calls_est:
  "total_prompt_tokens_est (llm (run tel (default_llm_calls xs))) =
     total_prompt_tokens_est (llm tel) + (\<Sum>(m, pc, cc, lat, ct)\<leftarrow>xs. pc div 4)"
proof (induction xs arbitrary: tel)
  case Nil
  then show ?case by (simp add: default_llm_calls_def run_Nil)
next
  case (Cons x xs)
  obtain m pc cc lat ct where x: "x = (m, pc, cc, lat, ct)" by (cases x) auto
  have "run tel (default_llm_calls (x # xs)) =
        run (record_llm_call m pc cc lat 0 ct tel) (default_llm_calls xs)"
    by (simp add: default_llm_calls_def run_Cons x)
  then show ?case
    using Cons.IH [of "record_llm_call m pc cc lat 0 ct tel"]
    by (simp add: llm_call_est x)
qed

text \<open>
  Claim C10. After any sequence of \<open>record_llm_call\<close> calls with \<open>prompt_tokens\<close> left at
  0 on a fresh instance, \<open>total_prompt_tokens_est\<close> is the sum of \<open>prompt_chars // 4\<close> over
  the calls. A call with a non-zero \<open>prompt_tokens\<close> leaves the maximum of the estimate
  (which by then includes this call's \<open>prompt_chars // 4\<close>) and \<open>prompt_tokens\<close>; the
  estimate is therefore not additive: two calls reporting 100 tokens each give 100 and then
  101.
\<close>

theorem prompt_token_estimate:
  "total_prompt_tokens_est (llm (run (init now wall) (default_llm_calls xs)))
     = (\<Sum>(m, pc, cc, lat, ct)\<leftarrow>xs. pc div 4)
   \<and> total_prompt_tokens_est (llm (record_llm_call m pc cc lat pt ct tel)) =
       (if pt \<noteq> 0 then max (total_prompt_tokens_est (llm tel) + pc div 4) pt
        else total_prompt_tokens_est (llm tel) + pc div 4)
   \<and> total_prompt_tokens_est (llm (run (init 0 []) [LlmCall ''m'' 4 0 1 100 0])) = 100
   \<and> total_prompt_tokens_est
       (llm (run (init 0 []) [LlmCall ''m'' 4 0 1 100 0, LlmCall ''m'' 4 0 1 100 0])) = 101"
proof -
  have z: "total_prompt_tokens_est (llm (init now wall)) = 0" for now wall
    by (simp add: init_def reset_def new_LLMCallCounter_def)
  have a: "total_prompt_tokens_est (llm (run (init now wall) (default_llm_calls xs)))
     = (\<Sum>(m, pc, cc, lat, ct)\<leftarrow>xs. pc div 4)"
    by (simp add: default_calls_est z)
  have b: "total_prompt_tokens_est (llm (run (init 0 []) [LlmCall ''m'' 4 0 1 100 0])) = 100"
    by (simp add: run_Cons run_Nil llm_call_est z)
  have c: "total_prompt_tokens_est
       (llm (run (init 0 []) [LlmCall ''m'' 4 0 1 100 0, LlmCall ''m'' 4 0 1 100 0])) = 101"
    by (simp add: run_Cons run_Nil llm_call_est z)
  show ?thesis using a b c llm_call_est by simp
qed

lemma match_init: "counters_match_events (init now wall)"
  by (simp add: counters_match_events_def count_events_def count_quota_events_def init_def reset_def
      new_LLMCallCounter_def new_VerificationCounter_def)

lemma match_step:
  assumes "counters_match_events tel" "\<not> reserved c"
  shows "counters_match_events (apply_call tel c)"
proof (cases c)
  case (Reset now wall)
  then show ?thesis
    by (simp add: counters_match_events_def count_events_def count_quota_events_def reset_def
      new_LLMCallCounter_def new_VerificationCounter_def)
next
  case (StageStart stg t0 now wall)
  then show ?thesis using assms
    by (simp add: counters_match_events_def count_events_def count_quota_events_def stage_start_def record_event_def)
next
  case (StageEnd stg extra t1 now wall)
  then show ?thesis using assms
    by (simp add: counters_match_events_def count_events_def count_quota_events_def stage_end_def record_event_def Let_def)
next
  case (Record stg evt dat now wall)
  then show ?thesis using assms
    by (auto simp add: counters_match_events_def count_events_def count_quota_events_def record_event_def)
next
  case (LlmCall m pc cc lat pt ct)
  then show ?thesis using assms
    by (simp add: counters_match_events_def count_events_def count_quota_events_def record_llm_call_def Let_def)
next
  case (LlmRetry m a e now wall)
  then show ?thesis using assms
    by (simp add: counters_match_events_def count_events_def count_quota_events_def record_llm_retry_def record_event_def)
next
  case (LlmError m e q now wall)
  then show ?thesis using assms
    by (simp add: counters_match_events_def count_events_def count_quota_events_def record_llm_error_def
        record_event_def Let_def)
next
  case (LlmFallback m now wall)
  then show ?thesis using assms
    by (simp add: counters_match_events_def count_events_def count_quota_events_def record_llm_fallback_def
        record_event_def)
next
  case (PywhyllmPair v1 v2 ans raw lat err nrm)
  then show ?thesis using assms
    by (simp add: counters_match_events_def count_events_def count_quota_events_def record_pywhyllm_pair_def Let_def)
next
  case (RecVerdict f t it g conf st hr n m now wall)
  then show ?thesis using assms
    by (simp add: counters_match_events_def count_events_def count_quota_events_def record_verification_verdict_def
        record_event_def Let_def)
next
  case (RecFinal f t g r its)
  then show ?thesis using assms
    by (simp add: counters_match_events_def count_events_def count_quota_events_def record_verification_final_def Let_def)
next
  case (RecResolveMiss r s m)
  then show ?thesis using assms
    by (simp add: counters_match_events_def count_events_def count_quota_events_def record_var_id_resolve_miss_def)
qed

lemma match_run:
  "counters_match_events tel \<Longrightarrow> list_all (\<lambda>c. \<not> reserved c) cs
   \<Longrightarrow> counters_match_events (run tel cs)"
  by (induction cs arbitrary: tel) (simp_all add: run_Nil run_Cons match_step)

text \<open>
  Claim C1, as stated, fails: \<open>record_llm_call\<close> counts the call and appends no event, so
  after one call on a fresh instance \<open>llm.total_calls\<close> is 1 and the event log is empty.
\<close>

theorem llm_call_counter_without_event:
  "total_calls (llm (record_llm_call ''gemini-2.5-flash'' 1000 500 250 0 0 (init 0 ''w''))) = 1
   \<and> events (record_llm_call ''gemini-2.5-flash'' 1000 500 250 0 0 (init 0 ''w'')) = []
   \<and> total_calls (llm (record_llm_call ''gemini-2.5-flash'' 1000 500 250 0 0 (init 0 ''w'')))
       \<noteq> int (length
           (events (record_llm_call ''gemini-2.5-flash'' 1000 500 250 0 0 (init 0 ''w''))))"
  by (simp add: record_llm_call_def init_def reset_def new_LLMCallCounter_def Let_def)

text \<open>
  Claim C1, amended. The recorders \<open>record_llm_retry\<close>, \<open>record_llm_error\<close>,
  \<open>record_llm_fallback\<close> and \<open>record_verification_verdict\<close> append one event per
  increment: after any sequence of telemetry calls on a fresh instance in which the generic
  \<open>record\<close> is not used with their stage and event names, \<open>total_retries\<close>,
  \<open>total_errors\<close>, \<open>total_fallbacks\<close> and \<open>total_judge_calls\<close> equal the number of
  \<open>llm/retry\<close>, \<open>llm/error\<close>, \<open>llm/native_to_prompt_fallback\<close> and
  \<open>verification/judge_verdict\<close> events of the log, and \<open>total_quota_errors\<close> equals the
  number of \<open>llm/error\<close> events marked \<open>is_quota\<close>. \<open>record_llm_call\<close> adds one to
  \<open>llm.total_calls\<close> and leaves the event log as it is;
  \<open>record_pywhyllm_pair\<close>, \<open>record_verification_final\<close> and
  \<open>record_var_id_resolve_miss\<close> leave it as it is too.
\<close>

theorem event_backed_counters:
  assumes "list_all (\<lambda>c. \<not> reserved c) cs"
  shows "total_retries (llm (run (init now wall) cs))
           = count_events ''llm'' ''retry'' (run (init now wall) cs)
    \<and> total_errors (llm (run (init now wall) cs))
           = count_events ''llm'' ''error'' (run (init now wall) cs)
    \<and> total_quota_errors (llm (run (init now wall) cs))
           = count_quota_events (run (init now wall) cs)
    \<and> total_fallbacks (llm (run (init now wall) cs))
           = count_events ''llm'' ''native_to_prompt_fallback'' (run (init now wall) cs)
    \<and> total_judge_calls (verification (run (init now wall) cs))
           = count_events ''verification'' ''judge_verdict'' (run (init now wall) cs)
    \<and> events (record_llm_call m pc cc lat pt ct tel) = events tel
    \<and> total_calls (llm (record_llm_call m pc cc lat pt ct tel)) = total_calls (llm tel) + 1
    \<and> events (record_pywhyllm_pair v1 v2 ans raw lat' err nrm tel) = events tel
    \<and> events (record_verification_final f t g r its tel) = events tel
    \<and> events (record_var_id_resolve_miss ri rs mt tel) = events tel"
proof -
  have "counters_match_events (run (init now wall) cs)"
    using match_init assms by (rule match_run)
  moreover have "events (record_llm_call m pc cc lat pt ct tel) = events tel"
    "total_calls (llm (record_llm_call m pc cc lat pt ct tel)) = total_calls (llm tel) + 1"
    by (simp_all add: record_llm_call_def Let_def)
  moreover have "events (record_pywhyllm_pair v1 v2 ans raw lat' err nrm tel) = events tel"
    by (simp add: record_pywhyllm_pair_def Let_def)
  moreover have "events (record_verification_final f t g r its tel) = events tel"
    by (simp add: record_verification_final_def Let_def)
  moreover have "events (record_var_id_resolve_miss ri rs mt tel) = events tel"
    by (simp add: record_var_id_resolve_miss_def)
  ultimately show ?thesis
    by (simp add: counters_match_events_def)
qed

theorem event_backed_counters_witness:
  "list_all (\<lambda>c. \<not> reserved c)
     [LlmRetry ''gemini-2.5-pro'' 1 ''timeout'' 1 ''w1'',
      LlmCall ''gemini-2.5-pro'' 1000 500 250 0 0,
      Record ''dag_drafting'' ''pywhyllm_pair_result'' [] 2 ''w2'',
      LlmError ''gemini-2.5-pro'' ''429 quota'' True 3 ''w3'',
      LlmError ''gemini-2.5-pro'' ''500'' False 4 ''w4'',
      LlmRetry ''gemini-2.5-pro'' 2 ''timeout'' 5 ''w5'']
   \<and> total_retries (llm (run (init 0 ''w0'')
     [LlmRetry ''gemini-2.5-pro'' 1 ''timeout'' 1 ''w1'',
      LlmCall ''gemini-2.5-pro'' 1000 500 250 0 0,
      Record ''dag_drafting'' ''pywhyllm_pair_result'' [] 2 ''w2'',
      LlmError ''gemini-2.5-pro'' ''429 quota'' True 3 ''w3'',
      LlmError ''gemini-2.5-pro'' ''500'' False 4 ''w4'',
      LlmRetry ''gemini-2.5-pro'' 2 ''timeout'' 5 ''w5''])) = 2
   \<and> count_events ''llm'' ''retry'' (run (init 0 ''w0'')
     [LlmRetry ''gemini-2.5-pro'' 1 ''timeout'' 1 ''w1'',
      LlmCall ''gemini-2.5-pro'' 1000 500 250 0 0,
      Record ''dag_drafting'' ''pywhyllm_pair_result'' [] 2 ''w2'',
      LlmError ''gemini-2.5-pro'' ''429 quota'' True 3 ''w3'',
      LlmError ''gemini-2.5-pro'' ''500'' False 4 ''w4'',
      LlmRetry ''gemini-2.5-pro'' 2 ''timeout'' 5 ''w5'']) = 2
   \<and> total_errors (llm (run (init 0 ''w0'')
     [LlmRetry ''gemini-2.5-pro'' 1 ''timeout'' 1 ''w1'',
      LlmCall ''gemini-2.5-pro'' 1000 500 250 0 0,
      Record ''dag_drafting'' ''pywhyllm_pair_result'' [] 2 ''w2'',
      LlmError ''gemini-2.5-pro'' ''429 quota'' True 3 ''w3'',
      LlmError ''gemini-2.5-pro'' ''500'' False 4 ''w4'',
      LlmRetry ''gemini-2.5-pro'' 2 ''timeout'' 5 ''w5''])) = 2
   \<and> count_events ''llm'' ''error'' (run (init 0 ''w0'')
     [LlmRetry ''gemini-2.5-pro'' 1 ''timeout'' 1 ''w1'',
      LlmCall ''gemini-2.5-pro'' 1000 500 250 0 0,
      Record ''dag_drafting'' ''pywhyllm_pair_result'' [] 2 ''w2'',
      LlmError ''gemini-2.5-pro'' ''429 quota'' True 3 ''w3'',
      LlmError ''gemini-2.5-pro'' ''500'' False 4 ''w4'',
      LlmRetry ''gemini-2.5-pro'' 2 ''timeout'' 5 ''w5'']) = 2
   \<and> total_quota_errors (llm (run (init 0 ''w0'')
     [LlmRetry ''gemini-2.5-pro'' 1 ''timeout'' 1 ''w1'',
      LlmCall ''gemini-2.5-pro'' 1000 500 250 0 0,
      Record ''dag_drafting'' ''pywhyllm_pair_result'' [] 2 ''w2'',
      LlmError ''gemini-2.5-pro'' ''429 quota'' True 3 ''w3'',
      LlmError ''gemini-2.5-pro'' ''500'' False 4 ''w4'',
      LlmRetry ''gemini-2.5-pro'' 2 ''timeout'' 5 ''w5''])) = 1
   \<and> count_quota_events (run (init 0 ''w0'')
     [LlmRetry ''gemini-2.5-pro'' 1 ''timeout'' 1 ''w1'',
      LlmCall ''gemini-2.5-pro'' 1000 500 250 0 0,
      Record ''dag_drafting'' ''pywhyllm_pair_result'' [] 2 ''w2'',
      LlmError ''gemini-2.5-pro'' ''429 quota'' True 3 ''w3'',
      LlmError ''gemini-2.5-pro'' ''500'' False 4 ''w4'',
      LlmRetry ''gemini-2.5-pro'' 2 ''timeout'' 5 ''w5'']) = 1"
proof -
  let ?cs = "[LlmRetry ''gemini-2.5-pro'' 1 ''timeout'' 1 ''w1'',
      LlmCall ''gemini-2.5-pro'' 1000 500 250 0 0,
      Record ''dag_drafting'' ''pywhyllm_pair_result'' [] 2 ''w2'',
      LlmError ''gemini-2.5-pro'' ''429 quota'' True 3 ''w3'',
      LlmError ''gemini-2.5-pro'' ''500'' False 4 ''w4'',
      LlmRetry ''gemini-2.5-pro'' 2 ''timeout'' 5 ''w5'']"
  have h: "list_all (\<lambda>c. \<not> reserved c) ?cs" by simp
  have r: "total_retries (llm (run (init 0 ''w0'') ?cs)) = 2"
    "total_errors (llm (run (init 0 ''w0'') ?cs)) = 2"
    "total_quota_errors (llm (run (init 0 ''w0'') ?cs)) = 1"
    by (simp_all add: run_def init_def reset_def new_LLMCallCounter_def record_llm_retry_def
        record_llm_call_def record_llm_error_def record_event_def Let_def)
  note t = event_backed_counters [OF h, of 0 "''w0''"]
  have c1: "count_events ''llm'' ''retry'' (run (init 0 ''w0'') ?cs) = 2"
    using t [THEN conjunct1] r(1) by simp
  have c2: "count_events ''llm'' ''error'' (run (init 0 ''w0'') ?cs) = 2"
    using t [THEN conjunct2, THEN conjunct1] r(2) by simp
  have c3: "count_quota_events (run (init 0 ''w0'') ?cs) = 1"
    using t [THEN conjunct2, THEN conjunct2, THEN conjunct1] r(3) by simp
  show ?thesis
    by (intro conjI h r c1 c2 c3)
qed

section \<open>Verified properties of the summary\<close>

lemma py_round_int: "py_round (of_int k) n = of_int k"
  by (simp add: py_round_def round_half_even_def Let_def flip: of_int_power of_int_mult)

text \<open>
  Claim C2, as stated, fails: \<open>summary()\<close> reports the time elapsed since \<open>run_start\<close>
  at the moment of the call, so two calls with nothing in between, one second and two
  seconds into the run, return different dictionaries.
\<close>

theorem summary_depends_on_clock:
  "map_of (summary 1 (init 0 ''w'')) ''total_run_seconds'' = Some (JFloat 1)
   \<and> map_of (summary 2 (init 0 ''w'')) ''total_run_seconds'' = Some (JFloat 2)
   \<and> summary 1 (init 0 ''w'') \<noteq> summary 2 (init 0 ''w'')"
proof -
  have r1: "py_round 1 2 = 1" using py_round_int [of 1 2] by simp
  have r2: "py_round 2 2 = 2" using py_round_int [of 2 2] by simp
  have a: "map_of (summary 1 (init 0 ''w'')) ''total_run_seconds'' = Some (JFloat 1)"
    by (simp add: summary_def init_def reset_def r1)
  have b: "map_of (summary 2 (init 0 ''w'')) ''total_run_seconds'' = Some (JFloat 2)"
    by (simp add: summary_def init_def reset_def r2)
  have "summary 1 (init 0 ''w'') \<noteq> summary 2 (init 0 ''w'')"
  proof
    assume "summary 1 (init 0 ''w'') = summary 2 (init 0 ''w'')"
    with a b have "Some (JFloat 1) = Some (JFloat 2)" by simp
    then show False by simp
  qed
  with a b show ?thesis by simp
qed

text \<open>
  Claim C2, amended. \<open>summary()\<close> is a function of the state and of the clock reading it
  takes, and it changes nothing of the state. Two calls on the same state return
  dictionaries with the same keys in the same order which agree at every key other than
  \<open>total_run_seconds\<close>; the second is the first with \<open>total_run_seconds\<close> set to the
  elapsed time at the second call, rounded to two places, and they are identical when that
  rounded time is the same.
\<close>

theorem summary_repeatable:
  "summary t2 tel =
     AList.update ''total_run_seconds'' (JFloat (py_round (t2 - run_start tel) 2)) (summary t1 tel)
   \<and> map fst (summary t1 tel) = map fst (summary t2 tel)
   \<and> (\<forall>k. k \<noteq> ''total_run_seconds'' \<longrightarrow> map_of (summary t1 tel) k = map_of (summary t2 tel) k)
   \<and> (py_round (t1 - run_start tel) 2 = py_round (t2 - run_start tel) 2
        \<longrightarrow> summary t1 tel = summary t2 tel)"
  by (simp add: summary_def Let_def)

theorem summary_repeatable_witness:
  "py_round (1 - run_start (init 0 ''w'')) 2 = py_round (1.004 - run_start (init 0 ''w'')) 2
   \<and> summary 1 (init 0 ''w'') = summary 1.004 (init 0 ''w'')
   \<and> ''run_start_utc'' \<noteq> ''total_run_seconds''
   \<and> map_of (summary 1 (init 0 ''w'')) ''run_start_utc''
       = map_of (summary 2 (init 0 ''w'')) ''run_start_utc''"
proof -
  have r: "run_start (init 0 ''w'') = 0"
    by (simp add: init_def reset_def)
  have h: "py_round (1 - run_start (init 0 ''w'')) 2
             = py_round (1.004 - run_start (init 0 ''w'')) 2"
    unfolding r by (simp add: py_round_def round_half_even_def Let_def)
  have k: "''run_start_utc'' \<noteq> ''total_run_seconds''" by simp
  note t1 = summary_repeatable [of "1.004" "init 0 ''w''" 1]
  note t2 = summary_repeatable [of 2 "init 0 ''w''" 1]
  have a: "summary 1 (init 0 ''w'') = summary 1.004 (init 0 ''w'')"
    by (rule t1 [THEN conjunct2, THEN conjunct2, THEN conjunct2, THEN mp, OF h])
  have b: "map_of (summary 1 (init 0 ''w'')) ''run_start_utc''
       = map_of (summary 2 (init 0 ''w'')) ''run_start_utc''"
    by (rule t2 [THEN conjunct2, THEN conjunct2, THEN conjunct1, THEN spec, THEN mp, OF k])
  show ?thesis
    by (intro conjI h a k b)
qed

section \<open>Verified properties of the configuration\<close>

text \<open>The defaults, and the bounds that the declarations do enforce.\<close>

lemma config_defaults:
  "new_VerificationConfig no_overrides =
     Inr \<lparr>max_judge_iterations = 2, grounding_confidence_threshold = 0.4,
          enable_adversarial_pass = False, judge_model_name = ''gemini-2.5-flash'',
          llm_semaphore_limit = 12, max_retries = 5, backoff_base = 2.0,
          backoff_jitter_max = 5.0, retrieval_top_k = 5\<rparr>"
  by (simp add: new_VerificationConfig_def config_values_def constraint_violations_def
      no_overrides_def)

lemma config_accepted_bounds:
  assumes "new_VerificationConfig ov = Inr c"
  shows "0 \<le> grounding_confidence_threshold c \<and> grounding_confidence_threshold c \<le> 1
    \<and> 1 \<le> llm_semaphore_limit c \<and> 1 \<le> max_retries c \<and> 1 \<le> retrieval_top_k c"
  using assms
  by (auto simp add: new_VerificationConfig_def constraint_violations_def Let_def
      split: if_splits)

text \<open>
  Claim C5. The defaults are as claimed and four of the five bounds are enforced, but
  \<open>max_judge_iterations\<close> is declared without \<open>ge=1\<close>, unlike \<open>llm_semaphore_limit\<close>,
  \<open>max_retries\<close> and \<open>retrieval_top_k\<close>: a configuration with
  \<open>max_judge_iterations = 0\<close> is constructed, where \<open>max_retries = 0\<close> raises.
\<close>

theorem config_accepts_zero_iterations:
  "new_VerificationConfig (no_overrides\<lparr>o_max_judge_iterations := Some 0\<rparr>) =
     Inr \<lparr>max_judge_iterations = 0, grounding_confidence_threshold = 0.4,
          enable_adversarial_pass = False, judge_model_name = ''gemini-2.5-flash'',
          llm_semaphore_limit = 12, max_retries = 5, backoff_base = 2.0,
          backoff_jitter_max = 5.0, retrieval_top_k = 5\<rparr>
   \<and> new_VerificationConfig (no_overrides\<lparr>o_max_retries := Some 0\<rparr>) =
     Inl (ValidationError [''max_retries''])"
  by (simp add: new_VerificationConfig_def config_values_def constraint_violations_def
      no_overrides_def)

section \<open>Verified properties of the judge\<close>

text \<open>
  The prompt texts have the lengths Python's \<open>len\<close> gives them: 1702 and 1144 for the
  two system prompts, 366 and 357 for the two templates with their placeholders
  (63 and 47 characters of placeholders).
\<close>

lemma system_prompt_lengths:
  "length GROUNDING_SYSTEM = 1702 \<and> length ADVERSARIAL_SYSTEM = 1144"
  by (simp add: GROUNDING_SYSTEM_def ADVERSARIAL_SYSTEM_def nl_def em_dash_def)

lemma template_lengths:
  "length (GROUNDING_TEMPLATE from_var to_var mech block) =
     303 + 2 * length from_var + 2 * length to_var + length mech + length block
   \<and> length (ADVERSARIAL_TEMPLATE from_var to_var mech quote) =
     310 + length from_var + length to_var + length mech + length quote"
  by (simp add: GROUNDING_TEMPLATE_def ADVERSARIAL_TEMPLATE_def nl_def em_dash_def)

text \<open>
  Claim C4, as stated, fails. With an oracle client that itself records nothing,
  \<open>evaluate\<close> leaves the telemetry singleton exactly as it was, with an empty event log
  and \<open>total_judge_calls = 0\<close>, and hands two records to the logger. With an oracle
  client that raises, \<open>evaluate_adversarial\<close> hands no record to the logger and appends
  no event, although it has counted the call.
\<close>

theorem evaluate_records_nothing:
  "fst (snd (evaluate (\<lambda>prompt system_prompt model inst.
            (Inr \<lparr>is_grounded = True, support_type = DIRECT_CAUSAL, supporting_quote = None,
                  rejection_reason = None, confidence = 0.8,
                  suggested_refinement_query = None\<rparr>, inst))
          ''gemini-2.5-pro'' ''rain'' ''yield'' ''irrigation'' [] 1 2 (Some (init 0 ''w'')) []))
     = Some (init 0 ''w'')
   \<and> events (init 0 ''w'') = []
   \<and> total_judge_calls (verification (init 0 ''w'')) = 0
   \<and> length (snd (snd (evaluate (\<lambda>prompt system_prompt model inst.
            (Inr \<lparr>is_grounded = True, support_type = DIRECT_CAUSAL, supporting_quote = None,
                  rejection_reason = None, confidence = 0.8,
                  suggested_refinement_query = None\<rparr>, inst))
          ''gemini-2.5-pro'' ''rain'' ''yield'' ''irrigation'' [] 1 2 (Some (init 0 ''w'')) [])))
       = 2
   \<and> snd (snd (evaluate_adversarial (\<lambda>prompt system_prompt model inst. (Inl (OracleError ''503''), inst))
          ''gemini-2.5-pro'' ''rain'' ''yield'' ''irrigation'' None 0 ''w'' 1 2
          (Some (init 0 ''w'')) []))
       = []
   \<and> map_option events (fst (snd (evaluate_adversarial (\<lambda>prompt system_prompt model inst. (Inl (OracleError ''503''), inst))
          ''gemini-2.5-pro'' ''rain'' ''yield'' ''irrigation'' None 0 ''w'' 1 2
          (Some (init 0 ''w'')) [])))
       = Some []
   \<and> map_option (\<lambda>tel. total_adversarial_calls (verification tel))
        (fst (snd (evaluate_adversarial (\<lambda>prompt system_prompt model inst. (Inl (OracleError ''503''), inst))
          ''gemini-2.5-pro'' ''rain'' ''yield'' ''irrigation'' None 0 ''w'' 1 2
          (Some (init 0 ''w'')) [])))
       = Some 1"
  by (simp add: evaluate_def evaluate_adversarial_def get_telemetry_def
      count_adversarial_call_def init_def reset_def new_VerificationCounter_def Let_def)

text \<open>
  Claim C4, amended. When the oracle client returns a verdict, \<open>evaluate\<close> and
  \<open>evaluate_adversarial\<close> each hand to the module logger exactly one record that holds
  the verdict, its confidence and the elapsed time; \<open>evaluate\<close> hands over one more
  before the call, with the sizes of the prompt. When the client raises, the exception
  is the result of the call and the verdict record is not logged. Neither operation
  appends an event to the telemetry log: the events after the call are those the
  client leaves. \<open>evaluate_adversarial\<close> adds one to \<open>total_adversarial_calls\<close> (and
  changes nothing else) on the singleton, constructed if there is none, before it
  calls the client, so also when the client then raises.

  The statement says nothing of \<open>total_judge_calls\<close> after \<open>evaluate\<close>: the source of
  \<open>evaluate\<close> has no counterpart of the increment \<open>evaluate_adversarial\<close> makes in
  place, as the example above shows.
\<close>

theorem judge_telemetry_effects:
  "fst (evaluate gen jm from_var to_var mech chunks jt0 jt1 inst logged)
     = fst (gen (GROUNDING_TEMPLATE from_var to_var mech (format_evidence chunks))
            GROUNDING_SYSTEM jm inst)
   \<and> map_option events (fst (snd (evaluate gen jm from_var to_var mech chunks jt0 jt1 inst logged)))
     = map_option events
         (snd (gen (GROUNDING_TEMPLATE from_var to_var mech (format_evidence chunks))
            GROUNDING_SYSTEM jm inst))
   \<and> snd (snd (evaluate gen jm from_var to_var mech chunks jt0 jt1 inst logged)) =
       (case fst (gen (GROUNDING_TEMPLATE from_var to_var mech (format_evidence chunks))
            GROUNDING_SYSTEM jm inst) of
          Inl e \<Rightarrow>
            logged @
              [\<lparr>msg = ''[TELEMETRY] Judge evaluate %s'' @ arrow @ ''%s: prompt_chars=%d ''
                      @ ''est_tokens=%d evidence_chunks=%d evidence_block_chars=%d'',
               args = [JStr from_var, JStr to_var,
                       JInt (int (length (GROUNDING_TEMPLATE from_var to_var mech
                                            (format_evidence chunks)))
                             + int (length GROUNDING_SYSTEM)),
                       JInt ((int (length (GROUNDING_TEMPLATE from_var to_var mech
                                             (format_evidence chunks)))
                              + int (length GROUNDING_SYSTEM)) div 4),
                       JInt (int (length chunks)),
                       JInt (int (length (format_evidence chunks)))]\<rparr>]
        | Inr v \<Rightarrow>
            logged @
              [\<lparr>msg = ''[TELEMETRY] Judge evaluate %s'' @ arrow @ ''%s: prompt_chars=%d ''
                      @ ''est_tokens=%d evidence_chunks=%d evidence_block_chars=%d'',
               args = [JStr from_var, JStr to_var,
                       JInt (int (length (GROUNDING_TEMPLATE from_var to_var mech
                                            (format_evidence chunks)))
                             + int (length GROUNDING_SYSTEM)),
                       JInt ((int (length (GROUNDING_TEMPLATE from_var to_var mech
                                             (format_evidence chunks)))
                              + int (length GROUNDING_SYSTEM)) div 4),
                       JInt (int (length chunks)),
                       JInt (int (length (format_evidence chunks)))]\<rparr>,
               \<lparr>msg = ''[TELEMETRY] Judge verdict for %s'' @ arrow @ ''%s: grounded=%s  ''
                      @ ''type=%s  confidence=%.2f  latency=%.1fs  rejection_reason=%r  ''
                      @ ''refinement=%r'',
               args = [JStr from_var, JStr to_var, JBool (is_grounded v),
                       JStr (support_type_value (support_type v)), JFloat (confidence v),
                       JFloat (jt1 - jt0), jstr_opt (rejection_reason v),
                       JStr (take 80 (if truthy_str (suggested_refinement_query v)
                                      then the (suggested_refinement_query v) else []))]\<rparr>])
   \<and> fst (evaluate_adversarial gen' jm from_var to_var mech quote now wall at0 at1 inst logged)
     = fst (gen' (ADVERSARIAL_TEMPLATE from_var to_var mech
                 (if truthy_str quote then the quote else ''(no quote extracted)''))
            ADVERSARIAL_SYSTEM jm
            (Some (count_adversarial_call
                     (case inst of None \<Rightarrow> init now wall | Some tel \<Rightarrow> tel))))
   \<and> fst (snd (evaluate_adversarial gen' jm from_var to_var mech quote now wall at0 at1 inst logged))
     = snd (gen' (ADVERSARIAL_TEMPLATE from_var to_var mech
                 (if truthy_str quote then the quote else ''(no quote extracted)''))
            ADVERSARIAL_SYSTEM jm
            (Some (count_adversarial_call
                     (case inst of None \<Rightarrow> init now wall | Some tel \<Rightarrow> tel))))
   \<and> snd (snd (evaluate_adversarial gen' jm from_var to_var mech quote now wall at0 at1 inst logged))
     =
       (case fst (gen' (ADVERSARIAL_TEMPLATE from_var to_var mech
                 (if truthy_str quote then the quote else ''(no quote extracted)''))
            ADVERSARIAL_SYSTEM jm
            (Some (count_adversarial_call
                     (case inst of None \<Rightarrow> init now wall | Some tel \<Rightarrow> tel)))) of
          Inl e \<Rightarrow> logged
        | Inr v \<Rightarrow>
            logged @
              [\<lparr>msg = ''[TELEMETRY] Adversarial verdict for %s'' @ arrow
                      @ ''%s: still_grounded=%s  alternatives=%d  confidence=%.2f  ''
                      @ ''latency=%.1fs'',
               args = [JStr from_var, JStr to_var, JBool (still_grounded v),
                       JInt (int (length (alternative_explanations v))),
                       JFloat (adv_confidence v), JFloat (at1 - at0)]\<rparr>])
   \<and> count_adversarial_call tel =
       tel\<lparr>verification :=
             (verification tel)\<lparr>total_adversarial_calls :=
                                  total_adversarial_calls (verification tel) + 1\<rparr>\<rparr>
   \<and> total_adversarial_calls (verification (count_adversarial_call tel))
       = total_adversarial_calls (verification tel) + 1
   \<and> events (count_adversarial_call tel) = events tel"
proof -
  obtain r i where g: "gen (GROUNDING_TEMPLATE from_var to_var mech (format_evidence chunks))
            GROUNDING_SYSTEM jm inst = (r, i)"
    by (cases "gen (GROUNDING_TEMPLATE from_var to_var mech (format_evidence chunks))
            GROUNDING_SYSTEM jm inst")
  obtain r' i' where g': "gen' (ADVERSARIAL_TEMPLATE from_var to_var mech
                 (if truthy_str quote then the quote else ''(no quote extracted)''))
            ADVERSARIAL_SYSTEM jm
            (Some (count_adversarial_call
                     (case inst of None \<Rightarrow> init now wall | Some tel \<Rightarrow> tel))) = (r', i')"
    by (cases "gen' (ADVERSARIAL_TEMPLATE from_var to_var mech
                 (if truthy_str quote then the quote else ''(no quote extracted)''))
            ADVERSARIAL_SYSTEM jm
            (Some (count_adversarial_call
                     (case inst of None \<Rightarrow> init now wall | Some tel \<Rightarrow> tel)))")
  have ev: "evaluate gen jm from_var to_var mech chunks jt0 jt1 inst logged =
      (case r of
         Inl e \<Rightarrow> (Inl e, i, logged @
              [\<lparr>msg = ''[TELEMETRY] Judge evaluate %s'' @ arrow @ ''%s: prompt_chars=%d ''
                      @ ''est_tokens=%d evidence_chunks=%d evidence_block_chars=%d'',
               args = [JStr from_var, JStr to_var,
                       JInt (int (length (GROUNDING_TEMPLATE from_var to_var mech
                                            (format_evidence chunks)))
                             + int (length GROUNDING_SYSTEM)),
                       JInt ((int (length (GROUNDING_TEMPLATE from_var to_var mech
                                             (format_evidence chunks)))
                              + int (length GROUNDING_SYSTEM)) div 4),
                       JInt (int (length chunks)),
                       JInt (int (length (format_evidence chunks)))]\<rparr>])
       | Inr v \<Rightarrow> (Inr v, i, logged @
              [\<lparr>msg = ''[TELEMETRY] Judge evaluate %s'' @ arrow @ ''%s: prompt_chars=%d ''
                      @ ''est_tokens=%d evidence_chunks=%d evidence_block_chars=%d'',
               args = [JStr from_var, JStr to_var,
                       JInt (int (length (GROUNDING_TEMPLATE from_var to_var mech
                                            (format_evidence chunks)))
                             + int (length GROUNDING_SYSTEM)),
                       JInt ((int (length (GROUNDING_TEMPLATE from_var to_var mech
                                             (format_evidence chunks)))
                              + int (length GROUNDING_SYSTEM)) div 4),
                       JInt (int (length chunks)),
                       JInt (int (length (format_evidence chunks)))]\<rparr>,
               \<lparr>msg = ''[TELEMETRY] Judge verdict for %s'' @ arrow @ ''%s: grounded=%s  ''
                      @ ''type=%s  confidence=%.2f  latency=%.1fs  rejection_reason=%r  ''
                      @ ''refinement=%r'',
               args = [JStr from_var, JStr to_var, JBool (is_grounded v),
                       JStr (support_type_value (support_type v)), JFloat (confidence v),
                       JFloat (jt1 - jt0), jstr_opt (rejection_reason v),
                       JStr (take 80 (if truthy_str (suggested_refinement_query v)
                                      then the (suggested_refinement_query v) else []))]\<rparr>]))"
    unfolding evaluate_def Let_def g by (simp split: sum.splits)
  have gt: "get_telemetry now wall inst =
      ((case inst of None \<Rightarrow> init now wall | Some tel \<Rightarrow> tel),
       Some (case inst of None \<Rightarrow> init now wall | Some tel \<Rightarrow> tel))"
    by (simp add: get_telemetry_def split: option.splits)
  have ad: "evaluate_adversarial gen' jm from_var to_var mech quote now wall at0 at1 inst logged =
      (case r' of
         Inl e \<Rightarrow> (Inl e, i', logged)
       | Inr v \<Rightarrow> (Inr v, i', logged @
              [\<lparr>msg = ''[TELEMETRY] Adversarial verdict for %s'' @ arrow
                      @ ''%s: still_grounded=%s  alternatives=%d  confidence=%.2f  ''
                      @ ''latency=%.1fs'',
               args = [JStr from_var, JStr to_var, JBool (still_grounded v),
                       JInt (int (length (alternative_explanations v))),
                       JFloat (adv_confidence v), JFloat (at1 - at0)]\<rparr>]))"
    unfolding evaluate_adversarial_def Let_def gt
    by (simp add: g' split: sum.splits)
  have c1: "fst (evaluate gen jm from_var to_var mech chunks jt0 jt1 inst logged) = r"
    "map_option events (fst (snd (evaluate gen jm from_var to_var mech chunks jt0 jt1 inst logged))) = map_option events i"
    unfolding ev by (cases r; simp)+
  have c2: "snd (snd (evaluate gen jm from_var to_var mech chunks jt0 jt1 inst logged)) =
       (case r of
          Inl e \<Rightarrow>
            logged @
              [\<lparr>msg = ''[TELEMETRY] Judge evaluate %s'' @ arrow @ ''%s: prompt_chars=%d ''
                      @ ''est_tokens=%d evidence_chunks=%d evidence_block_chars=%d'',
               args = [JStr from_var, JStr to_var,
                       JInt (int (length (GROUNDING_TEMPLATE from_var to_var mech
                                            (format_evidence chunks)))
                             + int (length GROUNDING_SYSTEM)),
                       JInt ((int (length (GROUNDING_TEMPLATE from_var to_var mech
                                             (format_evidence chunks)))
                              + int (length GROUNDING_SYSTEM)) div 4),
                       JInt (int (length chunks)),
                       JInt (int (length (format_evidence chunks)))]\<rparr>]
        | Inr v \<Rightarrow>
            logged @
              [\<lparr>msg = ''[TELEMETRY] Judge evaluate %s'' @ arrow @ ''%s: prompt_chars=%d ''
                      @ ''est_tokens=%d evidence_chunks=%d evidence_block_chars=%d'',
               args = [JStr from_var, JStr to_var,
                       JInt (int (length (GROUNDING_TEMPLATE from_var to_var mech
                                            (format_evidence chunks)))
                             + int (length GROUNDING_SYSTEM)),
                       JInt ((int (length (GROUNDING_TEMPLATE from_var to_var mech
                                             (format_evidence chunks)))
                              + int (length GROUNDING_SYSTEM)) div 4),
                       JInt (int (length chunks)),
                       JInt (int (length (format_evidence chunks)))]\<rparr>,
               \<lparr>msg = ''[TELEMETRY] Judge verdict for %s'' @ arrow @ ''%s: grounded=%s  ''
                      @ ''type=%s  confidence=%.2f  latency=%.1fs  rejection_reason=%r  ''
                      @ ''refinement=%r'',
               args = [JStr from_var, JStr to_var, JBool (is_grounded v),
                       JStr (support_type_value (support_type v)), JFloat (confidence v),
                       JFloat (jt1 - jt0), jstr_opt (rejection_reason v),
                       JStr (take 80 (if truthy_str (suggested_refinement_query v)
                                      then the (suggested_refinement_query v) else []))]\<rparr>])"
    unfolding ev by (cases r) simp_all
  have c3: "fst (evaluate_adversarial gen' jm from_var to_var mech quote now wall at0 at1 inst logged) = r'"
    "fst (snd (evaluate_adversarial gen' jm from_var to_var mech quote now wall at0 at1 inst logged)) = i'"
    unfolding ad by (cases r'; simp)+
  have c4: "snd (snd (evaluate_adversarial gen' jm from_var to_var mech quote now wall at0 at1 inst logged)) =
       (case r' of
          Inl e \<Rightarrow> logged
        | Inr v \<Rightarrow>
            logged @
              [\<lparr>msg = ''[TELEMETRY] Adversarial verdict for %s'' @ arrow
                      @ ''%s: still_grounded=%s  alternatives=%d  confidence=%.2f  ''
                      @ ''latency=%.1fs'',
               args = [JStr from_var, JStr to_var, JBool (still_grounded v),
                       JInt (int (length (alternative_explanations v))),
                       JFloat (adv_confidence v), JFloat (at1 - at0)]\<rparr>])"
    unfolding ad by (cases r') simp_all
  have c5: "count_adversarial_call tel =
       tel\<lparr>verification :=
             (verification tel)\<lparr>total_adversarial_calls :=
                                  total_adversarial_calls (verification tel) + 1\<rparr>\<rparr>"
    "total_adversarial_calls (verification (count_adversarial_call tel))
       = total_adversarial_calls (verification tel) + 1"
    "events (count_adversarial_call tel) = events tel"
    by (simp_all add: count_adversarial_call_def)
  show ?thesis
    unfolding g g' fst_conv snd_conv
    by (intro conjI c1 c2 c3 c4 c5)
qed

text \<open>The loop over \<open>enumerate(chunks, 1)\<close> renders chunk \<open>k\<close> with index \<open>k + 1\<close>.\<close>

lemma format_parts_nth:
  "format_parts i chunks = map (\<lambda>k. chunk_part (i + k) (chunks ! k)) [0..<length chunks]"
proof (induction chunks arbitrary: i)
  case Nil
  then show ?case by simp
next
  case (Cons c cs)
  have "map (\<lambda>k. chunk_part (i + k) ((c # cs) ! k)) [0..<length (c # cs)]
        = chunk_part i c # map (\<lambda>k. chunk_part (i + Suc k) (cs ! k)) [0..<length cs]"
    by (simp add: upt_conv_Cons map_Suc_upt [symmetric] del: upt_Suc)
  then show ?case using Cons.IH [of "Suc i"] by simp
qed

lemma sublist_str_join: "x \<in> set xs \<Longrightarrow> sublist x (str_join sep xs)"
proof (induction sep xs rule: str_join.induct)
  case (1 sep)
  then show ?case by simp
next
  case (2 sep y)
  then show ?case by simp
next
  case (3 sep y z zs)
  show ?case
  proof (cases "x = y")
    case True
    then show ?thesis by (simp add: sublist_append_rightI)
  next
    case False
    with 3 have "sublist x (str_join sep (z # zs))" by simp
    then obtain ps ss where "str_join sep (z # zs) = ps @ x @ ss"
      by (auto simp add: sublist_def)
    then have "str_join sep (y # z # zs) = (y @ sep @ ps) @ x @ ss" by simp
    then show ?thesis unfolding sublist_def by blast
  qed
qed

lemma digit_code: "d < 10 \<Longrightarrow> of_char (digit d) = (48 + d :: nat)"
proof -
  assume "d < 10"
  then have "d \<in> {0, 1, 2, 3, 4, 5, 6, 7, 8, 9}" by auto
  then show ?thesis by (auto simp add: digit_def)
qed

lemma digit_in_digits: "d < 10 \<Longrightarrow> digit d \<in> set ''0123456789''"
  unfolding digit_def by (rule nth_mem) simp

lemma digits_value_snoc:
  "digits_value (xs @ [c]) = 10 * digits_value xs + (of_char c - 48)"
  by (simp add: digits_value_def)

lemma show_nat_value: "digits_value (show_nat n) = n"
proof (induction n rule: show_nat.induct)
  case (1 n)
  show ?case
  proof (cases "n < 10")
    case True
    then show ?thesis
      by (simp add: show_nat.simps [of n] digits_value_def digit_code)
  next
    case False
    have m: "n mod 10 < 10" by simp
    from False 1 have "digits_value (show_nat (n div 10)) = n div 10" by simp
    with False show ?thesis
      by (simp add: show_nat.simps [of n] digits_value_snoc digit_code [OF m])
  qed
qed

lemma show_nat_digits: "set (show_nat n) \<subseteq> set ''0123456789''"
proof (induction n rule: show_nat.induct)
  case (1 n)
  show ?case
  proof (cases "n < 10")
    case True
    then show ?thesis
      using digit_in_digits [of n] by (simp add: show_nat.simps [of n])
  next
    case False
    have m: "n mod 10 < 10" by simp
    from False 1 have "set (show_nat (n div 10)) \<subseteq> set ''0123456789''" by simp
    with False show ?thesis
      using digit_in_digits [OF m] by (simp add: show_nat.simps [of n])
  qed
qed

lemma sublist_trans: "sublist xs ys \<Longrightarrow> sublist ys zs \<Longrightarrow> sublist xs zs"
proof -
  assume "sublist xs ys" "sublist ys zs"
  then obtain p1 s1 p2 s2 where "ys = p1 @ xs @ s1" "zs = p2 @ ys @ s2"
    by (auto simp add: sublist_def)
  then have "zs = (p2 @ p1) @ xs @ (s1 @ s2)" by simp
  then show ?thesis unfolding sublist_def by blast
qed

lemma grounding_template_text:
  \<open>GROUNDING_TEMPLATE from_var to_var mech block =
       ''## Proposed Causal Edge'' @ nl
         @ ''- **Cause variable:** '' @ from_var @ nl
         @ ''- **Effect variable:** '' @ to_var @ nl
         @ ''- **Proposed mechanism:** '' @ mech @ nl
         @ nl
         @ ''## Retrieved Evidence Chunks'' @ nl
         @ block @ nl
         @ nl
         @ ''## Task'' @ nl
         @ ''Does the evidence above explicitly support the claim that'' @ nl
         @ ''**'' @ from_var @ ''** causes **'' @ to_var
         @ ''** through the mechanism described?'' @ nl
         @ ''Evaluate carefully and respond with a structured verdict.''\<close>
  by (simp add: GROUNDING_TEMPLATE_def)

lemma grounding_template_holds_block:
  "sublist block (GROUNDING_TEMPLATE from_var to_var mech block)"
proof -
  have "GROUNDING_TEMPLATE from_var to_var mech block =
      (''## Proposed Causal Edge'' @ nl
         @ ''- **Cause variable:** '' @ from_var @ nl
         @ ''- **Effect variable:** '' @ to_var @ nl
         @ ''- **Proposed mechanism:** '' @ mech @ nl
         @ nl
         @ ''## Retrieved Evidence Chunks'' @ nl)
      @ block @
      (nl @ nl
         @ ''## Task'' @ nl
         @ ''Does the evidence above explicitly support the claim that'' @ nl
         @ ''**'' @ from_var @ ''** causes **'' @ to_var
         @ ''** through the mechanism described?'' @ nl
         @ ''Evaluate carefully and respond with a structured verdict.'')"
    by (simp add: GROUNDING_TEMPLATE_def)
  then show ?thesis unfolding sublist_def by blast
qed

lemma chunk_source_cases:
  "chunk_source c =
       (case doc_title (source c) of
          None \<Rightarrow> doc_id (source c)
        | Some t \<Rightarrow> if t = [] then doc_id (source c) else t)"
  by (simp add: chunk_source_def split: option.splits)

lemma chunk_loc_cases:
  "chunk_loc c =
       (case page_number (location c) of
          None \<Rightarrow>
            (case section_name (location c) of
               None \<Rightarrow> ''unknown location''
             | Some s \<Rightarrow> if s = [] then ''unknown location'' else s)
        | Some n \<Rightarrow>
            if n = 0
            then (case section_name (location c) of
                    None \<Rightarrow> ''unknown location''
                  | Some s \<Rightarrow> if s = [] then ''unknown location'' else s)
            else (case section_name (location c) of
                    None \<Rightarrow> ''p.'' @ show_int n
                  | Some s \<Rightarrow> if s = [] then ''p.'' @ show_int n
                            else ''p.'' @ show_int n @ '', '' @ s))"
  by (simp add: chunk_loc_def split: option.splits)

text \<open>
  Claim C9. For an empty evidence list the block is the placeholder
  \<open>(no evidence retrieved)\<close>. For every evidence list, empty or not, \<open>evaluate\<close> returns
  whatever the oracle client returns for the prompt whose text is spelled out here, with
  the block under its heading: so no failure arises from the empty list. For a non-empty
  list the block is the parts of the chunks joined by newlines, and the part of every
  chunk occurs in the block and so in the prompt. A part holds the index of the chunk
  (from 1, in decimal), its source (the title of the document, or its id when there is no
  title), its location (\<open>p.N\<close> for a page number other than 0 and the section name, joined
  by a comma, or \<open>unknown location\<close> when there is neither) and its raw content.
\<close>

theorem evidence_block_rendering:
  \<open>format_evidence [] = ''(no evidence retrieved)''
   \<and> fst (evaluate gen jm from_var to_var mech chunks jt0 jt1 inst logged) =
       fst (gen (GROUNDING_TEMPLATE from_var to_var mech (format_evidence chunks))
              GROUNDING_SYSTEM jm inst)
   \<and> (chunks \<noteq> [] \<longrightarrow>
        format_evidence chunks =
          str_join nl
            (map (\<lambda>k. ''### Chunk '' @ show_nat (Suc k) @ '' ['' @ chunk_source (chunks ! k)
                   @ '' '' @ em_dash @ '' '' @ chunk_loc (chunks ! k) @ '']'' @ nl
                   @ content (chunks ! k) @ nl)
               [0..<length chunks]))
   \<and> (\<forall>k < length chunks.
        sublist (''### Chunk '' @ show_nat (Suc k) @ '' ['' @ chunk_source (chunks ! k)
                   @ '' '' @ em_dash @ '' '' @ chunk_loc (chunks ! k) @ '']'' @ nl
                   @ content (chunks ! k) @ nl)
          (format_evidence chunks))
   \<and> (\<forall>k < length chunks.
        sublist (''### Chunk '' @ show_nat (Suc k) @ '' ['' @ chunk_source (chunks ! k)
                   @ '' '' @ em_dash @ '' '' @ chunk_loc (chunks ! k) @ '']'' @ nl
                   @ content (chunks ! k) @ nl)
          (GROUNDING_TEMPLATE from_var to_var mech (format_evidence chunks)))
   \<and> GROUNDING_TEMPLATE from_var to_var mech block =
       ''## Proposed Causal Edge'' @ nl
         @ ''- **Cause variable:** '' @ from_var @ nl
         @ ''- **Effect variable:** '' @ to_var @ nl
         @ ''- **Proposed mechanism:** '' @ mech @ nl
         @ nl
         @ ''## Retrieved Evidence Chunks'' @ nl
         @ block @ nl
         @ nl
         @ ''## Task'' @ nl
         @ ''Does the evidence above explicitly support the claim that'' @ nl
         @ ''**'' @ from_var @ ''** causes **'' @ to_var
         @ ''** through the mechanism described?'' @ nl
         @ ''Evaluate carefully and respond with a structured verdict.''
   \<and> sublist block (GROUNDING_TEMPLATE from_var to_var mech block)
   \<and> chunk_source c =
       (case doc_title (source c) of
          None \<Rightarrow> doc_id (source c)
        | Some t \<Rightarrow> if t = [] then doc_id (source c) else t)
   \<and> chunk_loc c =
       (case page_number (location c) of
          None \<Rightarrow>
            (case section_name (location c) of
               None \<Rightarrow> ''unknown location''
             | Some s \<Rightarrow> if s = [] then ''unknown location'' else s)
        | Some n \<Rightarrow>
            if n = 0
            then (case section_name (location c) of
                    None \<Rightarrow> ''unknown location''
                  | Some s \<Rightarrow> if s = [] then ''unknown location'' else s)
            else (case section_name (location c) of
                    None \<Rightarrow> ''p.'' @ show_int n
                  | Some s \<Rightarrow> if s = [] then ''p.'' @ show_int n
                            else ''p.'' @ show_int n @ '', '' @ s))
   \<and> show_int i = (if i < 0 then CHR ''-'' # show_nat (nat (- i)) else show_nat (nat i))
   \<and> digits_value (show_nat n) = n
   \<and> set (show_nat n) \<subseteq> set ''0123456789''\<close>
proof -
  have e: "format_evidence [] = ''(no evidence retrieved)''"
    by (simp add: format_evidence_def)
  have v: "fst (evaluate gen jm from_var to_var mech chunks jt0 jt1 inst logged) =
       fst (gen (GROUNDING_TEMPLATE from_var to_var mech (format_evidence chunks))
              GROUNDING_SYSTEM jm inst)"
    by (simp add: evaluate_def Let_def split: prod.splits sum.splits)
  have parts: "format_parts (Suc 0) chunks = map (\<lambda>k. chunk_part (Suc k) (chunks ! k)) [0..<length chunks]"
    using format_parts_nth [of "Suc 0" chunks] by simp
  have f: "chunks \<noteq> [] \<longrightarrow>
        format_evidence chunks =
          str_join nl (map (\<lambda>k. chunk_part (Suc k) (chunks ! k)) [0..<length chunks])"
    by (simp add: format_evidence_def parts)
  have s: "sublist (chunk_part (Suc k) (chunks ! k)) (format_evidence chunks)"
    if "k < length chunks" for k
  proof -
    from that have ne: "chunks \<noteq> []" by auto
    from that have "chunk_part (Suc k) (chunks ! k) \<in> set (format_parts (Suc 0) chunks)"
      unfolding parts by auto
    then show ?thesis
      using ne by (simp add: format_evidence_def sublist_str_join)
  qed
  have s1: "\<forall>k < length chunks.
      sublist (chunk_part (Suc k) (chunks ! k)) (format_evidence chunks)"
    using s by blast
  have s2: "\<forall>k < length chunks.
      sublist (chunk_part (Suc k) (chunks ! k))
        (GROUNDING_TEMPLATE from_var to_var mech (format_evidence chunks))"
    using s grounding_template_holds_block sublist_trans by blast
  have si: "show_int i = (if i < 0 then CHR ''-'' # show_nat (nat (- i)) else show_nat (nat i))"
    by (simp add: show_int_def)
  show ?thesis
    by (intro conjI e v f [unfolded chunk_part_def] s1 [unfolded chunk_part_def]
        s2 [unfolded chunk_part_def] grounding_template_text grounding_template_holds_block
        chunk_source_cases chunk_loc_cases si show_nat_value show_nat_digits)
qed

theorem evidence_block_rendering_witness:
  "[\<lparr>content = ''Rain increases yield.'', content_hash = ''h1'',
      source = \<lparr>doc_id = ''doc-1'', doc_title = Some ''TestDoc.pdf''\<rparr>,
      location = \<lparr>page_number = Some 1, section_name = Some ''Section 1''\<rparr>\<rparr>,
    \<lparr>content = ''Soil matters.'', content_hash = ''h2'',
      source = \<lparr>doc_id = ''doc-2'', doc_title = None\<rparr>,
      location = \<lparr>page_number = None, section_name = None\<rparr>\<rparr>] \<noteq> []
   \<and> format_evidence
       [\<lparr>content = ''Rain increases yield.'', content_hash = ''h1'',
          source = \<lparr>doc_id = ''doc-1'', doc_title = Some ''TestDoc.pdf''\<rparr>,
          location = \<lparr>page_number = Some 1, section_name = Some ''Section 1''\<rparr>\<rparr>,
        \<lparr>content = ''Soil matters.'', content_hash = ''h2'',
          source = \<lparr>doc_id = ''doc-2'', doc_title = None\<rparr>,
          location = \<lparr>page_number = None, section_name = None\<rparr>\<rparr>]
       = ''### Chunk 1 [TestDoc.pdf '' @ em_dash @ '' p.1, Section 1]'' @ nl
         @ ''Rain increases yield.'' @ nl @ nl
         @ ''### Chunk 2 [doc-2 '' @ em_dash @ '' unknown location]'' @ nl
         @ ''Soil matters.'' @ nl
   \<and> sublist (''### Chunk 2 [doc-2 '' @ em_dash @ '' unknown location]'' @ nl
               @ ''Soil matters.'' @ nl)
       (format_evidence
         [\<lparr>content = ''Rain increases yield.'', content_hash = ''h1'',
            source = \<lparr>doc_id = ''doc-1'', doc_title = Some ''TestDoc.pdf''\<rparr>,
            location = \<lparr>page_number = Some 1, section_name = Some ''Section 1''\<rparr>\<rparr>,
          \<lparr>content = ''Soil matters.'', content_hash = ''h2'',
            source = \<lparr>doc_id = ''doc-2'', doc_title = None\<rparr>,
            location = \<lparr>page_number = None, section_name = None\<rparr>\<rparr>])"
proof -
  let ?b1 = "\<lparr>content = ''Rain increases yield.'', content_hash = ''h1'',
      source = \<lparr>doc_id = ''doc-1'', doc_title = Some ''TestDoc.pdf''\<rparr>,
      location = \<lparr>page_number = Some 1, section_name = Some ''Section 1''\<rparr>\<rparr>"
  let ?b2 = "\<lparr>content = ''Soil matters.'', content_hash = ''h2'',
      source = \<lparr>doc_id = ''doc-2'', doc_title = None\<rparr>,
      location = \<lparr>page_number = None, section_name = None\<rparr>\<rparr>"
  note t = evidence_block_rendering [where chunks = "[?b1, ?b2]"]
  have ne: "[?b1, ?b2] \<noteq> []" by simp
  have n1: "show_nat (Suc 0) = ''1''" and n2: "show_nat (Suc (Suc 0)) = ''2''"
    by (simp_all add: show_nat.simps digit_def)
  have i1: "show_int 1 = ''1''"
    by (simp add: show_int_def show_nat.simps digit_def)
  have s1: "chunk_source ?b1 = ''TestDoc.pdf''" and s2: "chunk_source ?b2 = ''doc-2''"
    by (simp_all add: chunk_source_def)
  have l1: "chunk_loc ?b1 = ''p.1, Section 1''" and l2: "chunk_loc ?b2 = ''unknown location''"
    by (simp_all add: chunk_loc_def i1)
  have up: "[0..<length [?b1, ?b2]] = [0, Suc 0]"
    by (simp add: upt_conv_Cons)
  have eq: "format_evidence [?b1, ?b2]
       = ''### Chunk 1 [TestDoc.pdf '' @ em_dash @ '' p.1, Section 1]'' @ nl
         @ ''Rain increases yield.'' @ nl @ nl
         @ ''### Chunk 2 [doc-2 '' @ em_dash @ '' unknown location]'' @ nl
         @ ''Soil matters.'' @ nl"
    using t [THEN conjunct2, THEN conjunct2, THEN conjunct1, THEN mp, OF ne]
    unfolding up by (simp add: n1 n2 s1 s2 l1 l2)
  have k: "Suc 0 < length [?b1, ?b2]" by simp
  have sub: "sublist (''### Chunk 2 [doc-2 '' @ em_dash @ '' unknown location]'' @ nl
               @ ''Soil matters.'' @ nl) (format_evidence [?b1, ?b2])"
    using t [THEN conjunct2, THEN conjunct2, THEN conjunct2, THEN conjunct1, THEN spec,
             THEN mp, OF k]
    by (simp add: n2 s2 l2)
  show ?thesis
    by (intro conjI ne eq sub)
qed

section \<open>Verified properties of the dump\<close>










end
